theory Spec2Isabelle
  imports Main
begin

section \<open>Tokens (src/src/lexer.ts)\<close>

datatype TokenType =
    STRING | SPACE | NEWLINE | BOLD | ITALIC | UNORDEREDLI
  | HEADER1 | HEADER2 | HEADER3 | HEADER4 | HEADER5
  | MONOSPACE | CODE | UNTYPED | EOF | LINEBREAK

record Token =
  tokenValue :: string
  tokenType :: TokenType

text \<open>
  The lexer and the parser signal failure by \<^verbatim>\<open>throw\<close>. The lexer throws
  \<^verbatim>\<open>Invalid character: `c` at position p\<close>, the parser throws
  \<^verbatim>\<open>Invalid token: <current token>\<close>. Both are values here: the first carries
  the current character and the scan position, the second the parser's current token.
\<close>

datatype error =
    LexicalError "char option" nat
  | SyntaxError Token

section \<open>JavaScript strings\<close>

text \<open>
  A JavaScript string is read by index; an index out of range reads \<^verbatim>\<open>undefined\<close>
  (\<open>None\<close> here). Appending \<^verbatim>\<open>undefined\<close> to a string, or handing it to
  \<^verbatim>\<open>RegExp.test\<close>, coerces it to the nine characters \<^verbatim>\<open>undefined\<close>.
  Characters are the 8-bit characters of \<^typ>\<open>string\<close>; the lexer tells apart only the
  ASCII characters named in its \<^verbatim>\<open>switch\<close> and in the pattern of \<^verbatim>\<open>isAlphaNumeric\<close>.
\<close>

definition charAt :: "string \<Rightarrow> nat \<Rightarrow> char option" where
  "charAt s i = (if i < length s then Some (s ! i) else None)"

fun jsString :: "char option \<Rightarrow> string" where
  "jsString None = ''undefined''"
| "jsString (Some c) = [c]"

subsection \<open>src/src/utils.ts\<close>

definition alnumChars :: string where
  "alnumChars = ''ABCDEFGHIJKLMNOPQRSTUVWXYZ'' @ ''abcdefghijklmnopqrstuvwxyz'' @ ''0123456789''"

text \<open>\<^verbatim>\<open>/^[A-Za-z0-9]+$/.test(str)\<close>: a non-empty string of letters and digits only.\<close>

definition isAlphaNumeric :: "string \<Rightarrow> bool" where
  "isAlphaNumeric str = (str \<noteq> [] \<and> list_all (\<lambda>c. c \<in> set alnumChars) str)"

section \<open>The lexer (src/src/lexer.ts)\<close>

text \<open>
  The class's \<^verbatim>\<open>currentToken\<close> field is \<open>lexerToken\<close> here (the parser has a
  field of the same name). \<^verbatim>\<open>currentChar\<close> is \<open>None\<close> when it holds
  \<^verbatim>\<open>undefined\<close>.
\<close>

record Lexer =
  position :: nat
  input :: string
  currentChar :: "char option"
  lexerToken :: Token

definition Lexer_new :: "string \<Rightarrow> Lexer" where
  "Lexer_new inp =
     \<lparr>position = 0, input = inp, currentChar = charAt inp 0,
      lexerToken = \<lparr>tokenValue = '''', tokenType = UNTYPED\<rparr>\<rparr>"

definition peek :: "Lexer \<Rightarrow> nat \<Rightarrow> string" where
  "peek L stroke =
     (if int (length (input L)) - 1 \<ge> int (position L + stroke)
      then jsString (charAt (input L) (position L + stroke))
      else '''')"

text \<open>
  The loop of \<^verbatim>\<open>peekSequence\<close>: \<open>p\<close> runs from \<open>start\<close> to \<open>start + size\<close>; the
  \<^verbatim>\<open>break\<close> tests the lexer's own position (not \<open>p\<close>) against the last index.
\<close>

function peekSequence_loop :: "Lexer \<Rightarrow> nat \<Rightarrow> nat \<Rightarrow> nat \<Rightarrow> string \<Rightarrow> string" where
  "peekSequence_loop L start sz p s =
     (if p < start + sz
      then (if int (position L) = int (length (input L)) - 1 then s
            else peekSequence_loop L start sz (p + 1) (s @ jsString (charAt (input L) p)))
      else s)"
  by pat_completeness auto
termination
  by (relation "measure (\<lambda>(L, start, sz, p, s). start + sz - p)") auto

definition peekSequence :: "Lexer \<Rightarrow> nat \<Rightarrow> string" where
  "peekSequence L sz = peekSequence_loop L (position L) sz (position L) ''''"

definition advance :: "Lexer \<Rightarrow> nat \<Rightarrow> Lexer" where
  "advance L stroke =
     (if int (position L + stroke) > int (length (input L)) - 1
      then L\<lparr>currentChar := Some (CHR 0x00)\<rparr>
      else L\<lparr>currentChar := charAt (input L) (position L + stroke),
             position := position L + stroke\<rparr>)"

definition getHeaderToken :: "Lexer \<Rightarrow> Token \<times> Lexer" where
  "getHeaderToken L =
     (if peekSequence L 5 = ''#####''
      then (\<lparr>tokenValue = ''#####'', tokenType = HEADER5\<rparr>, advance L 5)
      else if peekSequence L 4 = ''####''
      then (\<lparr>tokenValue = ''####'', tokenType = HEADER4\<rparr>, advance L 4)
      else if peekSequence L 3 = ''###''
      then (\<lparr>tokenValue = ''###'', tokenType = HEADER3\<rparr>, advance L 3)
      else if peekSequence L 2 = ''##''
      then (\<lparr>tokenValue = ''##'', tokenType = HEADER2\<rparr>, advance L 2)
      else (\<lparr>tokenValue = ''#'', tokenType = HEADER1\<rparr>, advance L 1))"

function getTextToken_loop :: "Lexer \<Rightarrow> string \<Rightarrow> string \<times> Lexer" where
  "getTextToken_loop L s =
     (if isAlphaNumeric (jsString (currentChar L))
      then getTextToken_loop (advance L 1) (s @ jsString (currentChar L))
      else (s, L))"
  by pat_completeness auto
termination
  by (relation "measure (\<lambda>(L, s).
        if isAlphaNumeric (jsString (currentChar L))
        then 1 + (length (input L) - position L) else 0)")
     (auto simp: advance_def isAlphaNumeric_def alnumChars_def)

definition getTextToken :: "Lexer \<Rightarrow> Token \<times> Lexer" where
  "getTextToken L =
     (case getTextToken_loop L '''' of
        (s, L') \<Rightarrow> (\<lparr>tokenValue = s, tokenType = STRING\<rparr>, L'))"

definition getCodeToken :: "Lexer \<Rightarrow> Token \<times> Lexer" where
  "getCodeToken L =
     (if peek L 1 = ''`'' \<and> peek L 2 = ''`''
      then (\<lparr>tokenValue = ''```'', tokenType = CODE\<rparr>, advance L 3)
      else (\<lparr>tokenValue = ''`'', tokenType = MONOSPACE\<rparr>, advance L 1))"

definition invalidCharacterError :: "Lexer \<Rightarrow> error" where
  "invalidCharacterError L = LexicalError (currentChar L) (position L)"

text \<open>The \<^verbatim>\<open>switch\<close> of \<^verbatim>\<open>getNextToken\<close>, before the token is stored.\<close>

definition scanToken :: "Lexer \<Rightarrow> error + Token \<times> Lexer" where
  "scanToken L =
     (if currentChar L = Some (CHR 0x00)
      then Inr (\<lparr>tokenValue = [CHR 0x00], tokenType = EOF\<rparr>, L)
      else if currentChar L = Some (CHR '' '')
      then Inr (\<lparr>tokenValue = '' '', tokenType = SPACE\<rparr>, advance L 1)
      else if currentChar L = Some (CHR ''_'')
      then Inr (\<lparr>tokenValue = ''_'', tokenType = ITALIC\<rparr>, advance L 1)
      else if currentChar L = Some (CHR ''*'')
      then (if peek L 1 = ''*''
            then Inr (\<lparr>tokenValue = ''**'', tokenType = BOLD\<rparr>, advance L 2)
            else Inl (invalidCharacterError L))
      else if currentChar L = Some (CHR ''-'')
      then (if peek L 1 = ''-'' \<and> peek L 2 = ''-''
            then Inr (\<lparr>tokenValue = ''---'', tokenType = LINEBREAK\<rparr>, advance L 3)
            else Inr (\<lparr>tokenValue = ''-'', tokenType = UNORDEREDLI\<rparr>, advance L 1))
      else if currentChar L = Some (CHR ''#'')
      then Inr (getHeaderToken L)
      else if currentChar L = Some (CHR ''`'')
      then Inr (getCodeToken L)
      else if currentChar L = Some (CHR ''\<newline>'')
      then Inr (\<lparr>tokenValue = ''\<newline>'', tokenType = NEWLINE\<rparr>, advance L 1)
      else Inr (getTextToken L))"

definition getNextToken :: "Lexer \<Rightarrow> error + Token \<times> Lexer" where
  "getNextToken L =
     (case scanToken L of
        Inl e \<Rightarrow> Inl e
      | Inr (token, L') \<Rightarrow> Inr (token, L'\<lparr>lexerToken := token\<rparr>))"

section \<open>The syntax tree (src/src/parser.ts)\<close>

datatype NodeType =
    RootNode | UnorderedList | UnorderedListRoot | UnorderedListItem | OrderedList
  | StringNode | SpaceNode | Bold | Italic | Code | Monospace
  | Header1 | Header2 | Header3 | Header4 | Header5 | Void | NewLineNode

text \<open>
  \<open>languageName\<close> is present on the node built by \<^verbatim>\<open>codeStmt\<close> only
  (\<open>None\<close> on every other node).
\<close>

datatype ASTNode =
  ASTNode (nodeType: NodeType) (token: Token) (languageName: "string option")
          (children: "ASTNode list")

section \<open>The parser (src/src/parser.ts)\<close>

record Parser =
  currentToken :: Token
  lexer :: Lexer

text \<open>
  Results. A rule of the parser mutates the parser and may throw; its loops and its
  recursion may also go on without end (the lexer can hand out the same token without
  moving). Every rule with a loop or a recursive call therefore takes a bound \<open>n\<close> on
  the depth of calls and the number of iterations: \<open>None\<close> says the bound was reached,
  \<open>Some (Inl e)\<close> that \<open>e\<close> was thrown, \<open>Some (Inr (x, P))\<close> that the rule
  returned \<open>x\<close> and left the parser in state \<open>P\<close>. A rule that returns \<open>None\<close>
  within every bound never returns in the program: a loop spins, and a recursion grows
  until the engine gives up on the call stack. The \<^verbatim>\<open>console.log\<close> of \<^verbatim>\<open>eat\<close> is left
  out.
\<close>

definition thenR :: "(error + 'a) option \<Rightarrow> ('a \<Rightarrow> (error + 'b) option) \<Rightarrow> (error + 'b) option" where
  "thenR m f = (case m of None \<Rightarrow> None | Some (Inl e) \<Rightarrow> Some (Inl e) | Some (Inr x) \<Rightarrow> f x)"

definition Parser_new :: "Lexer \<Rightarrow> error + Parser" where
  "Parser_new L =
     (case getNextToken L of
        Inl e \<Rightarrow> Inl e
      | Inr (t, L') \<Rightarrow> Inr \<lparr>currentToken = t, lexer = L'\<rparr>)"

definition invalidTokenError :: "Parser \<Rightarrow> error" where
  "invalidTokenError P = SyntaxError (currentToken P)"

definition eat :: "TokenType \<Rightarrow> Parser \<Rightarrow> error + Parser" where
  "eat tt P =
     (if tokenType (currentToken P) = tt
      then (case getNextToken (lexer P) of
              Inl e \<Rightarrow> Inl e
            | Inr (t, L') \<Rightarrow> Inr \<lparr>currentToken = t, lexer = L'\<rparr>)
      else Inl (invalidTokenError P))"

text \<open>
  The loop of \<^verbatim>\<open>allCharsStmt\<close>; \<open>s\<close> is \<^verbatim>\<open>node.token.tokenValue\<close>, the only
  part of the node the loop changes.
\<close>

fun allCharsStmt_loop :: "nat \<Rightarrow> string \<Rightarrow> Parser \<Rightarrow> (error + string \<times> Parser) option" where
  "allCharsStmt_loop 0 s P = None"
| "allCharsStmt_loop (Suc n) s P =
     (if tokenType (currentToken P) \<in> set [STRING, SPACE]
      then thenR (Some (eat (tokenType (currentToken P)) P))
             (\<lambda>P'. allCharsStmt_loop n (s @ tokenValue (currentToken P)) P')
      else Some (Inr (s, P)))"

definition allCharsStmt :: "nat \<Rightarrow> Parser \<Rightarrow> (error + ASTNode \<times> Parser) option" where
  "allCharsStmt n P =
     thenR (allCharsStmt_loop n '''' P)
       (\<lambda>(s, P'). Some (Inr (ASTNode StringNode \<lparr>tokenValue = s, tokenType = STRING\<rparr> None [], P')))"

text \<open>\<^verbatim>\<open>textStmt\<close> calls itself after a STRING token and drops what the call returns.\<close>

fun textStmt :: "nat \<Rightarrow> Parser \<Rightarrow> (error + ASTNode \<times> Parser) option" where
  "textStmt 0 P = None"
| "textStmt (Suc n) P =
     (if tokenType (currentToken P) = STRING
      then thenR (Some (eat STRING P))
             (\<lambda>P1. thenR (textStmt n P1)
                (\<lambda>(dropped, P2). Some (Inr (ASTNode StringNode (currentToken P) None [], P2))))
      else if tokenType (currentToken P) = NEWLINE
      then thenR (Some (eat NEWLINE P))
             (\<lambda>P1. Some (Inr (ASTNode NewLineNode (currentToken P) None [], P1)))
      else Some (Inr (ASTNode StringNode \<lparr>tokenValue = '''', tokenType = STRING\<rparr> None [], P)))"

text \<open>
  Bold and italic call each other through their inner rules. The inner rules are
  \<^verbatim>\<open>while\<close> loops over a \<^verbatim>\<open>switch\<close>; \<open>nodes\<close> is the list built so far.
\<close>

fun boldStmt :: "nat \<Rightarrow> Parser \<Rightarrow> (error + ASTNode \<times> Parser) option"
and italicStmt :: "nat \<Rightarrow> Parser \<Rightarrow> (error + ASTNode \<times> Parser) option"
and innerItalicStmt :: "nat \<Rightarrow> ASTNode list \<Rightarrow> Parser \<Rightarrow> (error + ASTNode list \<times> Parser) option"
and innerBoldStmt :: "nat \<Rightarrow> ASTNode list \<Rightarrow> Parser \<Rightarrow> (error + ASTNode list \<times> Parser) option"
where
  "boldStmt 0 P = None"
| "boldStmt (Suc n) P =
     thenR (Some (eat BOLD P))
       (\<lambda>P1. thenR (innerBoldStmt n [] P1)
          (\<lambda>(nodes, P2). thenR (Some (eat BOLD P2))
             (\<lambda>P3. Some (Inr (ASTNode Bold (currentToken P) None nodes, P3)))))"
| "italicStmt 0 P = None"
| "italicStmt (Suc n) P =
     thenR (Some (eat ITALIC P))
       (\<lambda>P1. thenR (innerItalicStmt n [] P1)
          (\<lambda>(nodes, P2). thenR (Some (eat ITALIC P2))
             (\<lambda>P3. Some (Inr (ASTNode Italic (currentToken P) None nodes, P3)))))"
| "innerItalicStmt 0 nodes P = None"
| "innerItalicStmt (Suc n) nodes P =
     (if tokenType (currentToken P) \<in> set [BOLD, STRING]
      then (if tokenType (currentToken P) = BOLD
            then thenR (boldStmt n P) (\<lambda>(node, P1). innerItalicStmt n (nodes @ [node]) P1)
            else if tokenType (currentToken P) = STRING
            then thenR (allCharsStmt n P) (\<lambda>(node, P1). innerItalicStmt n (nodes @ [node]) P1)
            else innerItalicStmt n nodes P)
      else Some (Inr (nodes, P)))"
| "innerBoldStmt 0 nodes P = None"
| "innerBoldStmt (Suc n) nodes P =
     (if tokenType (currentToken P) \<in> set [ITALIC, STRING]
      then (if tokenType (currentToken P) = ITALIC
            then thenR (italicStmt n P) (\<lambda>(node, P1). innerBoldStmt n (nodes @ [node]) P1)
            else if tokenType (currentToken P) = STRING
            then thenR (allCharsStmt n P) (\<lambda>(node, P1). innerBoldStmt n (nodes @ [node]) P1)
            else innerBoldStmt n nodes P)
      else Some (Inr (nodes, P)))"

definition monoSpaceStmt :: "nat \<Rightarrow> Parser \<Rightarrow> (error + ASTNode \<times> Parser) option" where
  "monoSpaceStmt n P =
     thenR (Some (eat MONOSPACE P))
       (\<lambda>P1. thenR (allCharsStmt n P1)
          (\<lambda>(text, P2). thenR (Some (eat MONOSPACE P2))
             (\<lambda>P3. Some (Inr (ASTNode Monospace (currentToken P) None [text], P3)))))"

definition codeStmt :: "nat \<Rightarrow> Parser \<Rightarrow> (error + ASTNode \<times> Parser) option" where
  "codeStmt n P =
     thenR (Some (eat CODE P))
       (\<lambda>P1. thenR (Some (eat STRING P1))
          (\<lambda>P2. thenR (Some (eat NEWLINE P2))
             (\<lambda>P3. thenR (allCharsStmt n P3)
                (\<lambda>(text, P4). thenR (Some (eat CODE P4))
                   (\<lambda>P5. Some (Inr (ASTNode Code (currentToken P)
                                       (Some (tokenValue (currentToken P1))) [text], P5)))))))"

text \<open>The table \<^verbatim>\<open>headers\<close> of \<^verbatim>\<open>headerStmt\<close>.\<close>

definition headers :: "TokenType \<rightharpoonup> NodeType" where
  "headers = [HEADER1 \<mapsto> Header1, HEADER2 \<mapsto> Header2, HEADER3 \<mapsto> Header3,
              HEADER4 \<mapsto> Header4, HEADER5 \<mapsto> Header5]"

definition headerStmt :: "nat \<Rightarrow> Parser \<Rightarrow> (error + ASTNode \<times> Parser) option" where
  "headerStmt n P =
     (case headers (tokenType (currentToken P)) of
        None \<Rightarrow> Some (Inl (invalidTokenError P))
      | Some nt \<Rightarrow>
          thenR (Some (eat (tokenType (currentToken P)) P))
            (\<lambda>P1. thenR (Some (eat SPACE P1))
               (\<lambda>P2. thenR (allCharsStmt n P2)
                  (\<lambda>(text, P3). Some (Inr (ASTNode nt (currentToken P) None [text], P3))))))"

definition innerUnorederedLiStmt :: "nat \<Rightarrow> Parser \<Rightarrow> (error + ASTNode \<times> Parser) option" where
  "innerUnorederedLiStmt n P =
     thenR (Some (eat UNORDEREDLI P))
       (\<lambda>P1. thenR (Some (eat SPACE P1))
          (\<lambda>P2. thenR
             (if tokenType (currentToken P2) = ITALIC then italicStmt n P2
              else if tokenType (currentToken P2) = BOLD then boldStmt n P2
              else if tokenType (currentToken P2) = STRING then allCharsStmt n P2
              else if tokenType (currentToken P2) = MONOSPACE then monoSpaceStmt n P2
              else headerStmt n P2)
             (\<lambda>(child, P3).
                Some (Inr (ASTNode UnorderedListItem (currentToken P) None [child], P3)))))"

fun unorderedListStmt_loop :: "nat \<Rightarrow> ASTNode list \<Rightarrow> Parser \<Rightarrow> (error + ASTNode list \<times> Parser) option" where
  "unorderedListStmt_loop 0 items P = None"
| "unorderedListStmt_loop (Suc n) items P =
     (if tokenType (currentToken P) = UNORDEREDLI
      then thenR (innerUnorederedLiStmt n P)
             (\<lambda>(item, P1). unorderedListStmt_loop n (items @ [item]) P1)
      else Some (Inr (items, P)))"

definition unorderedListStmt :: "nat \<Rightarrow> Parser \<Rightarrow> (error + ASTNode \<times> Parser) option" where
  "unorderedListStmt n P =
     thenR (unorderedListStmt_loop n [] P)
       (\<lambda>(items, P1).
          Some (Inr (ASTNode UnorderedListRoot \<lparr>tokenValue = ''lis'', tokenType = UNTYPED\<rparr>
                       None items, P1)))"

text \<open>\<^verbatim>\<open>TokenType[t].startsWith("HEADER")\<close>\<close>

definition startsWithHEADER :: "TokenType \<Rightarrow> bool" where
  "startsWithHEADER t = (t \<in> set [HEADER1, HEADER2, HEADER3, HEADER4, HEADER5])"

definition formatStmt :: "nat \<Rightarrow> Parser \<Rightarrow> (error + ASTNode \<times> Parser) option" where
  "formatStmt n P =
     (if tokenType (currentToken P) = STRING then textStmt n P
      else if tokenType (currentToken P) = SPACE then allCharsStmt n P
      else if tokenType (currentToken P) = MONOSPACE then monoSpaceStmt n P
      else if tokenType (currentToken P) = CODE then codeStmt n P
      else if tokenType (currentToken P) = ITALIC then italicStmt n P
      else if tokenType (currentToken P) = BOLD then boldStmt n P
      else if tokenType (currentToken P) = NEWLINE then textStmt n P
      else if tokenType (currentToken P) = UNORDEREDLI then unorderedListStmt n P
      else if tokenType (currentToken P) = EOF
      then Some (Inr (ASTNode Void \<lparr>tokenValue = '''', tokenType = UNTYPED\<rparr> None [], P))
      else if startsWithHEADER (tokenType (currentToken P)) then headerStmt n P
      else Some (Inl (invalidTokenError P)))"

fun rootStmt_loop :: "nat \<Rightarrow> ASTNode list \<Rightarrow> Parser \<Rightarrow> (error + ASTNode list \<times> Parser) option" where
  "rootStmt_loop 0 cs P = None"
| "rootStmt_loop (Suc n) cs P =
     (if tokenType (currentToken P) \<noteq> EOF
      then thenR (formatStmt n P) (\<lambda>(node, P1). rootStmt_loop n (cs @ [node]) P1)
      else Some (Inr (cs, P)))"

definition rootStmt :: "nat \<Rightarrow> Parser \<Rightarrow> (error + ASTNode \<times> Parser) option" where
  "rootStmt n P =
     thenR (rootStmt_loop n [] P)
       (\<lambda>(cs, P1).
          Some (Inr (ASTNode RootNode \<lparr>tokenValue = ''Root'', tokenType = UNTYPED\<rparr> None cs, P1)))"

text \<open>
  The whole pipeline, as src/src/test.ts and the README run it:
  \<^verbatim>\<open>new Parser(new Lexer(data)).rootStmt()\<close>.
\<close>

definition parse_document :: "nat \<Rightarrow> string \<Rightarrow> (error + ASTNode) option" where
  "parse_document n inp =
     thenR (Some (Parser_new (Lexer_new inp)))
       (\<lambda>P. thenR (rootStmt n P) (\<lambda>(doc, P1). Some (Inr doc)))"

section \<open>Observing the lexer and the parser\<close>

text \<open>
  \<open>nextTokens k L\<close> calls \<^verbatim>\<open>getNextToken\<close> \<open>k\<close> times in a row, as the loop
  commented out in src/src/test.ts does, and returns the tokens with the lexer reached.
\<close>

fun nextTokens :: "nat \<Rightarrow> Lexer \<Rightarrow> error + Token list \<times> Lexer" where
  "nextTokens 0 L = Inr ([], L)"
| "nextTokens (Suc k) L =
     (case getNextToken L of
        Inl e \<Rightarrow> Inl e
      | Inr (t, L1) \<Rightarrow>
          (case nextTokens k L1 of
             Inl e \<Rightarrow> Inl e
           | Inr (ts, L2) \<Rightarrow> Inr (t # ts, L2)))"

text \<open>
  \<open>shift k P\<close> lets the parser consume \<open>k\<close> tokens with \<^verbatim>\<open>eat\<close>, each under its
  own kind: it returns the tokens consumed, the current one first, and the parser reached.
  \<open>shift k P = Inr (ts, P')\<close> says that the parser in state \<open>P\<close> has the tokens
  \<open>ts\<close> in front of it, followed by the current token of \<open>P'\<close>.
\<close>

fun shift :: "nat \<Rightarrow> Parser \<Rightarrow> error + Token list \<times> Parser" where
  "shift 0 P = Inr ([], P)"
| "shift (Suc k) P =
     (case eat (tokenType (currentToken P)) P of
        Inl e \<Rightarrow> Inl e
      | Inr P1 \<Rightarrow>
          (case shift k P1 of
             Inl e \<Rightarrow> Inl e
           | Inr (ts, P') \<Rightarrow> Inr (currentToken P # ts, P')))"

section \<open>Bounds: a result does not depend on the bound that reached it\<close>

declare allCharsStmt_loop.simps [simp del] textStmt.simps [simp del]
  boldStmt.simps [simp del] italicStmt.simps [simp del]
  innerItalicStmt.simps [simp del] innerBoldStmt.simps [simp del]
  unorderedListStmt_loop.simps [simp del] rootStmt_loop.simps [simp del]
  peekSequence_loop.simps [simp del] getTextToken_loop.simps [simp del]

lemma thenR_simps [simp]:
  "thenR None f = None"
  "thenR (Some (Inl e)) f = Some (Inl e)"
  "thenR (Some (Inr x)) f = f x"
  by (simp_all add: thenR_def)

lemma thenR_mono:
  assumes "thenR m f = Some r"
    and "\<And>y. m = Some y \<Longrightarrow> m' = Some y"
    and "\<And>x. m = Some (Inr x) \<Longrightarrow> f x = Some r \<Longrightarrow> f' x = Some r"
  shows "thenR m' f' = Some r"
proof (cases m)
  case None
  with assms(1) show ?thesis by simp
next
  case (Some y)
  with assms(2) have m': "m' = Some y" by simp
  show ?thesis
  proof (cases y)
    case (Inl e)
    with Some m' assms(1) show ?thesis by simp
  next
    case (Inr x)
    with Some m' assms(1) assms(3) show ?thesis by simp
  qed
qed

lemma allCharsStmt_loop_Suc:
  "allCharsStmt_loop n s P = Some r \<Longrightarrow> allCharsStmt_loop (Suc n) s P = Some r"
proof (induction n arbitrary: s P)
  case 0
  then show ?case by (simp add: allCharsStmt_loop.simps)
next
  case (Suc n)
  from Suc.prems show ?case
    apply (subst allCharsStmt_loop.simps(2))
    apply (subst (asm) allCharsStmt_loop.simps(2))
    apply (auto split: if_splits elim!: thenR_mono intro: Suc.IH)
    done
qed

lemma allCharsStmt_Suc:
  "allCharsStmt n P = Some r \<Longrightarrow> allCharsStmt (Suc n) P = Some r"
  unfolding allCharsStmt_def
  by (erule thenR_mono) (simp_all add: allCharsStmt_loop_Suc)

lemma textStmt_Suc:
  "textStmt n P = Some r \<Longrightarrow> textStmt (Suc n) P = Some r"
proof (induction n arbitrary: P r)
  case 0
  then show ?case by (simp add: textStmt.simps)
next
  case (Suc n)
  from Suc.prems show ?case
    apply (subst textStmt.simps(2))
    apply (subst (asm) textStmt.simps(2))
    apply (auto split: if_splits elim!: thenR_mono intro: Suc.IH)
    done
qed

lemma emphasis_Suc:
  "(\<forall>P r. boldStmt n P = Some r \<longrightarrow> boldStmt (Suc n) P = Some r) \<and>
   (\<forall>P r. italicStmt n P = Some r \<longrightarrow> italicStmt (Suc n) P = Some r) \<and>
   (\<forall>nodes P r. innerItalicStmt n nodes P = Some r \<longrightarrow> innerItalicStmt (Suc n) nodes P = Some r) \<and>
   (\<forall>nodes P r. innerBoldStmt n nodes P = Some r \<longrightarrow> innerBoldStmt (Suc n) nodes P = Some r)"
proof (induction n)
  case 0
  show ?case by (simp add: boldStmt.simps italicStmt.simps innerItalicStmt.simps innerBoldStmt.simps)
next
  case (Suc n)
  then have b: "\<And>P r. boldStmt n P = Some r \<Longrightarrow> boldStmt (Suc n) P = Some r"
    and i: "\<And>P r. italicStmt n P = Some r \<Longrightarrow> italicStmt (Suc n) P = Some r"
    and ii: "\<And>nodes P r. innerItalicStmt n nodes P = Some r \<Longrightarrow> innerItalicStmt (Suc n) nodes P = Some r"
    and ib: "\<And>nodes P r. innerBoldStmt n nodes P = Some r \<Longrightarrow> innerBoldStmt (Suc n) nodes P = Some r"
    by blast+
  have 1: "boldStmt (Suc (Suc n)) P = Some r" if "boldStmt (Suc n) P = Some r" for P r
    using that
    apply (subst boldStmt.simps(2))
    apply (subst (asm) boldStmt.simps(2))
    apply (auto split: if_splits elim!: thenR_mono intro: ib)
    done
  have 2: "italicStmt (Suc (Suc n)) P = Some r" if "italicStmt (Suc n) P = Some r" for P r
    using that
    apply (subst italicStmt.simps(2))
    apply (subst (asm) italicStmt.simps(2))
    apply (auto split: if_splits elim!: thenR_mono intro: ii)
    done
  have 3: "innerItalicStmt (Suc (Suc n)) nodes P = Some r" if "innerItalicStmt (Suc n) nodes P = Some r" for nodes P r
    using that
    apply (subst innerItalicStmt.simps(2))
    apply (subst (asm) innerItalicStmt.simps(2))
    apply (auto split: if_splits elim!: thenR_mono intro: ii b allCharsStmt_Suc)
    done
  have 4: "innerBoldStmt (Suc (Suc n)) nodes P = Some r" if "innerBoldStmt (Suc n) nodes P = Some r" for nodes P r
    using that
    apply (subst innerBoldStmt.simps(2))
    apply (subst (asm) innerBoldStmt.simps(2))
    apply (auto split: if_splits elim!: thenR_mono intro: ib i allCharsStmt_Suc)
    done
  from 1 2 3 4 show ?case by blast
qed


lemma monoSpaceStmt_Suc:
  "monoSpaceStmt n P = Some r \<Longrightarrow> monoSpaceStmt (Suc n) P = Some r"
  unfolding monoSpaceStmt_def
  by (auto elim!: thenR_mono intro: allCharsStmt_Suc)

lemma codeStmt_Suc:
  "codeStmt n P = Some r \<Longrightarrow> codeStmt (Suc n) P = Some r"
  unfolding codeStmt_def
  by (auto elim!: thenR_mono intro: allCharsStmt_Suc)

lemma headerStmt_Suc:
  "headerStmt n P = Some r \<Longrightarrow> headerStmt (Suc n) P = Some r"
  unfolding headerStmt_def
  by (auto split: option.splits elim!: thenR_mono intro: allCharsStmt_Suc)

lemma boldStmt_Suc: "boldStmt n P = Some r \<Longrightarrow> boldStmt (Suc n) P = Some r"
  using emphasis_Suc [of n] by blast

lemma italicStmt_Suc: "italicStmt n P = Some r \<Longrightarrow> italicStmt (Suc n) P = Some r"
  using emphasis_Suc [of n] by blast

lemma innerBoldStmt_Suc:
  "innerBoldStmt n nodes P = Some r \<Longrightarrow> innerBoldStmt (Suc n) nodes P = Some r"
  using emphasis_Suc [of n] by blast

lemma innerItalicStmt_Suc:
  "innerItalicStmt n nodes P = Some r \<Longrightarrow> innerItalicStmt (Suc n) nodes P = Some r"
  using emphasis_Suc [of n] by blast

lemma innerUnorederedLiStmt_Suc:
  "innerUnorederedLiStmt n P = Some r \<Longrightarrow> innerUnorederedLiStmt (Suc n) P = Some r"
  unfolding innerUnorederedLiStmt_def
  by (auto split: if_splits elim!: thenR_mono
           intro: allCharsStmt_Suc italicStmt_Suc boldStmt_Suc monoSpaceStmt_Suc headerStmt_Suc)

lemma unorderedListStmt_loop_Suc:
  "unorderedListStmt_loop n items P = Some r \<Longrightarrow> unorderedListStmt_loop (Suc n) items P = Some r"
proof (induction n arbitrary: items P)
  case 0
  then show ?case by (simp add: unorderedListStmt_loop.simps)
next
  case (Suc n)
  from Suc.prems show ?case
    apply (subst unorderedListStmt_loop.simps(2))
    apply (subst (asm) unorderedListStmt_loop.simps(2))
    apply (auto split: if_splits elim!: thenR_mono intro: Suc.IH innerUnorederedLiStmt_Suc)
    done
qed

lemma unorderedListStmt_Suc:
  "unorderedListStmt n P = Some r \<Longrightarrow> unorderedListStmt (Suc n) P = Some r"
  unfolding unorderedListStmt_def
  by (erule thenR_mono) (simp_all add: unorderedListStmt_loop_Suc)

lemma formatStmt_Suc:
  "formatStmt n P = Some r \<Longrightarrow> formatStmt (Suc n) P = Some r"
  unfolding formatStmt_def
  by (auto split: if_splits
           intro: textStmt_Suc allCharsStmt_Suc monoSpaceStmt_Suc codeStmt_Suc italicStmt_Suc
                  boldStmt_Suc unorderedListStmt_Suc headerStmt_Suc)

lemma rootStmt_loop_Suc:
  "rootStmt_loop n cs P = Some r \<Longrightarrow> rootStmt_loop (Suc n) cs P = Some r"
proof (induction n arbitrary: cs P)
  case 0
  then show ?case by (simp add: rootStmt_loop.simps)
next
  case (Suc n)
  from Suc.prems show ?case
    apply (subst rootStmt_loop.simps(2))
    apply (subst (asm) rootStmt_loop.simps(2))
    apply (auto split: if_splits elim!: thenR_mono intro: Suc.IH formatStmt_Suc)
    done
qed

lemma rootStmt_Suc: "rootStmt n P = Some r \<Longrightarrow> rootStmt (Suc n) P = Some r"
  unfolding rootStmt_def
  by (erule thenR_mono) (simp_all add: rootStmt_loop_Suc)

lemma parse_document_Suc:
  "parse_document n inp = Some r \<Longrightarrow> parse_document (Suc n) inp = Some r"
  unfolding parse_document_def
  by (auto elim!: thenR_mono intro: rootStmt_Suc)

text \<open>A result reached within a bound is the result within every larger bound.\<close>

lemma fuel_add:
  assumes "\<And>n. f n = Some r \<Longrightarrow> f (Suc n) = Some r" and "f n = Some r"
  shows "f (n + k) = Some (r::'a)"
  using assms by (induction k) simp_all

lemma parse_document_fuel:
  "parse_document n inp = Some r \<Longrightarrow> parse_document (n + k) inp = Some r"
  by (rule fuel_add [where f = "\<lambda>n. parse_document n inp"]) (simp_all add: parse_document_Suc)

section \<open>The lexer at the end of the input\<close>

lemma scanToken_EOF:
  assumes "scanToken L = Inr (t, L')" and "tokenType t = EOF"
  shows "currentChar L = Some (CHR 0x00) \<and> L' = L \<and> t = \<lparr>tokenValue = [CHR 0x00], tokenType = EOF\<rparr>"
  using assms
  by (auto simp: scanToken_def getHeaderToken_def getCodeToken_def getTextToken_def
           split: if_splits prod.splits)

lemma getNextToken_at_end:
  "currentChar L = Some (CHR 0x00) \<Longrightarrow>
   getNextToken L = Inr (\<lparr>tokenValue = [CHR 0x00], tokenType = EOF\<rparr>,
                         L\<lparr>lexerToken := \<lparr>tokenValue = [CHR 0x00], tokenType = EOF\<rparr>\<rparr>)"
  by (simp add: getNextToken_def scanToken_def)

lemma nextTokens_at_end:
  assumes "currentChar L = Some (CHR 0x00)"
    and "lexerToken L = \<lparr>tokenValue = [CHR 0x00], tokenType = EOF\<rparr>"
  shows "nextTokens k L = Inr (replicate k \<lparr>tokenValue = [CHR 0x00], tokenType = EOF\<rparr>, L)"
proof (induction k)
  case 0
  show ?case by simp
next
  case (Suc k)
  from assms have "getNextToken L = Inr (\<lparr>tokenValue = [CHR 0x00], tokenType = EOF\<rparr>, L)"
    by (simp add: getNextToken_at_end)
  with Suc show ?case by simp
qed

text \<open>
  C9. Once \<^verbatim>\<open>getNextToken\<close> has returned an EOF token, the scan position and the
  current character are those before the call, and every later call returns the EOF
  token again and leaves the lexer as it is.
\<close>

theorem eof_is_idempotent:
  assumes "getNextToken L = Inr (t, L')" and "tokenType t = EOF"
  shows "t = \<lparr>tokenValue = [CHR 0x00], tokenType = EOF\<rparr> \<and>
         position L' = position L \<and> currentChar L' = currentChar L \<and>
         nextTokens k L' = Inr (replicate k t, L')"
proof -
  from assms(1) obtain L0 where s: "scanToken L = Inr (t, L0)" and L': "L' = L0\<lparr>lexerToken := t\<rparr>"
    by (auto simp: getNextToken_def split: sum.splits prod.splits)
  from scanToken_EOF [OF s assms(2)]
  have c: "currentChar L = Some (CHR 0x00)" and L0: "L0 = L"
    and t: "t = \<lparr>tokenValue = [CHR 0x00], tokenType = EOF\<rparr>"
    by simp_all
  have "nextTokens k L' = Inr (replicate k \<lparr>tokenValue = [CHR 0x00], tokenType = EOF\<rparr>, L')"
    by (rule nextTokens_at_end) (simp_all add: L' L0 c t)
  with t L' L0 show ?thesis by simp
qed

theorem eof_is_idempotent_witness:
  "getNextToken \<lparr>position = 0, input = ''a'', currentChar = Some (CHR 0x00),
                  lexerToken = \<lparr>tokenValue = ''a'', tokenType = STRING\<rparr>\<rparr>
     = Inr (\<lparr>tokenValue = [CHR 0x00], tokenType = EOF\<rparr>,
            \<lparr>position = 0, input = ''a'', currentChar = Some (CHR 0x00),
             lexerToken = \<lparr>tokenValue = [CHR 0x00], tokenType = EOF\<rparr>\<rparr>) \<and>
   tokenType \<lparr>tokenValue = [CHR 0x00], tokenType = EOF\<rparr> = EOF \<and>
   nextTokens 2 \<lparr>position = 0, input = ''a'', currentChar = Some (CHR 0x00),
                 lexerToken = \<lparr>tokenValue = [CHR 0x00], tokenType = EOF\<rparr>\<rparr>
     = Inr ([\<lparr>tokenValue = [CHR 0x00], tokenType = EOF\<rparr>,
             \<lparr>tokenValue = [CHR 0x00], tokenType = EOF\<rparr>],
            \<lparr>position = 0, input = ''a'', currentChar = Some (CHR 0x00),
             lexerToken = \<lparr>tokenValue = [CHR 0x00], tokenType = EOF\<rparr>\<rparr>)"
proof -
  have g: "getNextToken \<lparr>position = 0, input = ''a'', currentChar = Some (CHR 0x00),
                  lexerToken = \<lparr>tokenValue = ''a'', tokenType = STRING\<rparr>\<rparr>
     = Inr (\<lparr>tokenValue = [CHR 0x00], tokenType = EOF\<rparr>,
            \<lparr>position = 0, input = ''a'', currentChar = Some (CHR 0x00),
             lexerToken = \<lparr>tokenValue = [CHR 0x00], tokenType = EOF\<rparr>\<rparr>)"
    by (simp add: getNextToken_def scanToken_def)
  have e: "tokenType \<lparr>tokenValue = [CHR 0x00], tokenType = EOF\<rparr> = EOF" by simp
  from eof_is_idempotent [OF g e, of 2] g show ?thesis
    by (simp add: numeral_2_eq_2)
qed

section \<open>The empty input\<close>

text \<open>
  C10. For the empty input the constructor reads \<^verbatim>\<open>input[0]\<close>, which is
  \<^verbatim>\<open>undefined\<close>; no \<^verbatim>\<open>case\<close> of the switch matches it, and \<^verbatim>\<open>isAlphaNumeric\<close>
  accepts its coercion to a string. The first call of \<^verbatim>\<open>getNextToken\<close> therefore returns
  the STRING token \<^verbatim>\<open>undefined\<close>, not EOF; every call after it returns EOF.
\<close>

theorem empty_input_first_token:
  "getNextToken (Lexer_new '''') =
     Inr (\<lparr>tokenValue = ''undefined'', tokenType = STRING\<rparr>,
          \<lparr>position = 0, input = '''', currentChar = Some (CHR 0x00),
           lexerToken = \<lparr>tokenValue = ''undefined'', tokenType = STRING\<rparr>\<rparr>) \<and>
   nextTokens (Suc k)
       \<lparr>position = 0, input = '''', currentChar = Some (CHR 0x00),
        lexerToken = \<lparr>tokenValue = ''undefined'', tokenType = STRING\<rparr>\<rparr> =
     Inr (replicate (Suc k) \<lparr>tokenValue = [CHR 0x00], tokenType = EOF\<rparr>,
          \<lparr>position = 0, input = '''', currentChar = Some (CHR 0x00),
           lexerToken = \<lparr>tokenValue = [CHR 0x00], tokenType = EOF\<rparr>\<rparr>)"
proof
  show "getNextToken (Lexer_new '''') =
     Inr (\<lparr>tokenValue = ''undefined'', tokenType = STRING\<rparr>,
          \<lparr>position = 0, input = '''', currentChar = Some (CHR 0x00),
           lexerToken = \<lparr>tokenValue = ''undefined'', tokenType = STRING\<rparr>\<rparr>)"
    by code_simp
next
  let ?L1 = "\<lparr>position = 0, input = '''', currentChar = Some (CHR 0x00),
        lexerToken = \<lparr>tokenValue = ''undefined'', tokenType = STRING\<rparr>\<rparr>"
  let ?L2 = "\<lparr>position = 0, input = '''', currentChar = Some (CHR 0x00),
        lexerToken = \<lparr>tokenValue = [CHR 0x00], tokenType = EOF\<rparr>\<rparr>"
  have "getNextToken ?L1 = Inr (\<lparr>tokenValue = [CHR 0x00], tokenType = EOF\<rparr>, ?L2)"
    by (simp add: getNextToken_at_end)
  moreover have "nextTokens k ?L2 = Inr (replicate k \<lparr>tokenValue = [CHR 0x00], tokenType = EOF\<rparr>, ?L2)"
    by (rule nextTokens_at_end) simp_all
  ultimately show "nextTokens (Suc k) ?L1 =
     Inr (replicate (Suc k) \<lparr>tokenValue = [CHR 0x00], tokenType = EOF\<rparr>, ?L2)"
    by simp
qed

section \<open>Characters that begin no token\<close>

lemma getTextToken_not_alnum:
  "\<not> isAlphaNumeric (jsString (currentChar L)) \<Longrightarrow>
   getTextToken L = (\<lparr>tokenValue = '''', tokenType = STRING\<rparr>, L)"
  by (simp add: getTextToken_def getTextToken_loop.simps)

lemma getNextToken_no_token_char:
  assumes "currentChar L = Some c"
    and "c \<notin> set [CHR 0x00, CHR '' '', CHR ''_'', CHR ''*'', CHR ''-'', CHR ''#'', CHR 0x60, CHR ''\<newline>'']"
    and "\<not> isAlphaNumeric [c]"
  shows "getNextToken L =
           Inr (\<lparr>tokenValue = '''', tokenType = STRING\<rparr>,
                L\<lparr>lexerToken := \<lparr>tokenValue = '''', tokenType = STRING\<rparr>\<rparr>)"
  using assms by (simp add: getNextToken_def scanToken_def getTextToken_not_alnum)

lemma getNextToken_throws_only_at_lone_star:
  assumes "getNextToken L = Inl e"
  shows "currentChar L = Some (CHR ''*'') \<and> peek L 1 \<noteq> ''*'' \<and>
         e = LexicalError (Some (CHR ''*'')) (position L)"
  using assms
  by (auto simp: getNextToken_def scanToken_def invalidCharacterError_def
           split: if_splits sum.splits prod.splits)

text \<open>
  C3. A character that begins no token, such as \<^verbatim>\<open>!\<close>, raises nothing. The
  \<^verbatim>\<open>default\<close> branch hands it to \<^verbatim>\<open>getTextToken\<close>, whose loop does not run: the call
  returns a STRING token with the empty text and the lexer has not moved. Only a lone
  \<^verbatim>\<open>*\<close> reaches \<^verbatim>\<open>invalidCharacterError\<close>. Evaluated here on the input \<^verbatim>\<open>!\<close>.
\<close>

theorem exclamation_mark_is_an_empty_string_token:
  "getNextToken (Lexer_new ''!'') =
     Inr (\<lparr>tokenValue = '''', tokenType = STRING\<rparr>,
          \<lparr>position = 0, input = ''!'', currentChar = Some (CHR ''!''),
           lexerToken = \<lparr>tokenValue = '''', tokenType = STRING\<rparr>\<rparr>)"
  by code_simp

text \<open>
  On that input the parser never returns: \<^verbatim>\<open>eat(STRING)\<close> leaves it where it was, and
  \<^verbatim>\<open>textStmt\<close> calls itself again, within every bound.
\<close>

lemma exclamation_mark_never_returns: "parse_document n ''!'' = None"
proof -
  let ?e = "\<lparr>tokenValue = '''', tokenType = STRING\<rparr>"
  let ?L = "\<lparr>position = 0, input = ''!'', currentChar = Some (CHR ''!''), lexerToken = ?e\<rparr>"
  let ?P = "\<lparr>currentToken = ?e, lexer = ?L\<rparr>"
  have new: "Parser_new (Lexer_new ''!'') = Inr ?P" by code_simp
  have eat: "eat STRING ?P = Inr ?P" by code_simp
  have t: "textStmt m ?P = None" for m
  proof (induction m)
    case 0
    show ?case by (simp add: textStmt.simps)
  next
    case (Suc m)
    then show ?case by (simp add: textStmt.simps(2) [of m] eat)
  qed
  have "rootStmt_loop n [] ?P = None"
  proof (cases n)
    case 0
    then show ?thesis by (simp add: rootStmt_loop.simps)
  next
    case (Suc m)
    then show ?thesis by (simp add: rootStmt_loop.simps formatStmt_def t)
  qed
  with new show ?thesis by (simp add: parse_document_def rootStmt_def)
qed

section \<open>Header tokens\<close>

lemma peekSequence_loop_eq:
  "peekSequence_loop L start sz p s =
     (if p < start + sz \<and> int (position L) = int (length (input L)) - 1 then s
      else s @ concat (map (\<lambda>q. jsString (charAt (input L) q)) [p..<start + sz]))"
proof (induction L start sz p s rule: peekSequence_loop.induct)
  case (1 L start sz p s)
  show ?case
  proof (cases "p < start + sz")
    case False
    then show ?thesis by (simp add: peekSequence_loop.simps [of L start sz p s])
  next
    case True
    show ?thesis
    proof (cases "int (position L) = int (length (input L)) - 1")
      case atend: True
      with True show ?thesis by (simp add: peekSequence_loop.simps [of L start sz p s])
    next
      case notend: False
      from True have u: "[p..<start + sz] = p # [p + 1..<start + sz]"
        by (simp add: upt_conv_Cons)
      from "1.IH" [OF True notend] notend True show ?thesis
        by (simp add: peekSequence_loop.simps [of L start sz p s] u)
    qed
  qed
qed

lemma peekSequence_eq:
  "peekSequence L sz =
     (if 0 < sz \<and> int (position L) = int (length (input L)) - 1 then ''''
      else concat (map (\<lambda>q. jsString (charAt (input L) q)) [position L..<position L + sz]))"
  by (simp add: peekSequence_def peekSequence_loop_eq)

lemma peekSequence_five:
  assumes "position L + 5 \<le> length (input L)"
    and "\<forall>i<5. input L ! (position L + i) = CHR ''#''"
  shows "peekSequence L 5 = ''#####''"
proof -
  have "map (\<lambda>q. jsString (charAt (input L) q)) [position L..<position L + 5] = replicate 5 ''#''"
    using assms by (auto simp: list_eq_iff_nth_eq charAt_def)
  moreover have "concat (replicate 5 ''#'') = ''#####''"
    by (simp add: eval_nat_numeral)
  ultimately show ?thesis using assms(1) by (simp add: peekSequence_eq)
qed

lemma getHeaderToken_type:
  "tokenType (fst (getHeaderToken L)) \<in> set [HEADER1, HEADER2, HEADER3, HEADER4, HEADER5]"
  by (simp add: getHeaderToken_def)

text \<open>
  C4, as the code has it. When the scan position is at the start of five or more
  \<^verbatim>\<open>#\<close>, \<^verbatim>\<open>getNextToken\<close> returns the Header5 token and moves the cursor by
  exactly five characters (to the end mark when these five were the last ones). A sixth
  \<^verbatim>\<open>#\<close> is not consumed: it is the current character afterwards, and the next call
  returns a further header token for it.
\<close>

theorem header_run_takes_five:
  assumes "currentChar L = Some (CHR ''#'')"
    and "position L + 5 \<le> length (input L)"
    and "\<forall>i<5. input L ! (position L + i) = CHR ''#''"
  shows "getNextToken L =
           Inr (\<lparr>tokenValue = ''#####'', tokenType = HEADER5\<rparr>,
                (if position L + 5 < length (input L)
                 then L\<lparr>currentChar := Some (input L ! (position L + 5)),
                        position := position L + 5,
                        lexerToken := \<lparr>tokenValue = ''#####'', tokenType = HEADER5\<rparr>\<rparr>
                 else L\<lparr>currentChar := Some (CHR 0x00),
                        lexerToken := \<lparr>tokenValue = ''#####'', tokenType = HEADER5\<rparr>\<rparr>)) \<and>
         (position L + 5 < length (input L) \<and> input L ! (position L + 5) = CHR ''#'' \<longrightarrow>
            (\<exists>t' L''.
               getNextToken (L\<lparr>currentChar := Some (input L ! (position L + 5)),
                               position := position L + 5,
                               lexerToken := \<lparr>tokenValue = ''#####'', tokenType = HEADER5\<rparr>\<rparr>)
                 = Inr (t', L'') \<and>
               tokenType t' \<in> set [HEADER1, HEADER2, HEADER3, HEADER4, HEADER5]))"
proof
  from assms(1) have "scanToken L = Inr (getHeaderToken L)"
    by (simp add: scanToken_def)
  moreover have "getHeaderToken L = (\<lparr>tokenValue = ''#####'', tokenType = HEADER5\<rparr>, advance L 5)"
    by (simp add: getHeaderToken_def peekSequence_five [OF assms(2,3)])
  ultimately show "getNextToken L =
           Inr (\<lparr>tokenValue = ''#####'', tokenType = HEADER5\<rparr>,
                (if position L + 5 < length (input L)
                 then L\<lparr>currentChar := Some (input L ! (position L + 5)),
                        position := position L + 5,
                        lexerToken := \<lparr>tokenValue = ''#####'', tokenType = HEADER5\<rparr>\<rparr>
                 else L\<lparr>currentChar := Some (CHR 0x00),
                        lexerToken := \<lparr>tokenValue = ''#####'', tokenType = HEADER5\<rparr>\<rparr>))"
    using assms(2) by (auto simp: getNextToken_def advance_def charAt_def)
next
  let ?L' = "L\<lparr>currentChar := Some (input L ! (position L + 5)),
                position := position L + 5,
                lexerToken := \<lparr>tokenValue = ''#####'', tokenType = HEADER5\<rparr>\<rparr>"
  show "position L + 5 < length (input L) \<and> input L ! (position L + 5) = CHR ''#'' \<longrightarrow>
            (\<exists>t' L''. getNextToken ?L' = Inr (t', L'') \<and>
               tokenType t' \<in> set [HEADER1, HEADER2, HEADER3, HEADER4, HEADER5])"
  proof
    assume a: "position L + 5 < length (input L) \<and> input L ! (position L + 5) = CHR ''#''"
    then have "scanToken ?L' = Inr (getHeaderToken ?L')"
      by (simp add: scanToken_def)
    then have "getNextToken ?L' =
        Inr (fst (getHeaderToken ?L'), (snd (getHeaderToken ?L'))\<lparr>lexerToken := fst (getHeaderToken ?L')\<rparr>)"
      by (simp add: getNextToken_def split: prod.splits)
    with getHeaderToken_type [of ?L'] show "\<exists>t' L''. getNextToken ?L' = Inr (t', L'') \<and>
               tokenType t' \<in> set [HEADER1, HEADER2, HEADER3, HEADER4, HEADER5]"
      by blast
  qed
qed

theorem header_run_takes_five_witness:
  "currentChar (Lexer_new ''######'') = Some (CHR ''#'') \<and>
   position (Lexer_new ''######'') + 5 \<le> length (input (Lexer_new ''######'')) \<and>
   getNextToken (Lexer_new ''######'') =
     Inr (\<lparr>tokenValue = ''#####'', tokenType = HEADER5\<rparr>,
          \<lparr>position = 5, input = ''######'', currentChar = Some (CHR ''#''),
           lexerToken = \<lparr>tokenValue = ''#####'', tokenType = HEADER5\<rparr>\<rparr>) \<and>
   (\<exists>t' L''.
      getNextToken \<lparr>position = 5, input = ''######'', currentChar = Some (CHR ''#''),
                     lexerToken = \<lparr>tokenValue = ''#####'', tokenType = HEADER5\<rparr>\<rparr>
        = Inr (t', L'') \<and>
      tokenType t' \<in> set [HEADER1, HEADER2, HEADER3, HEADER4, HEADER5])"
proof -
  let ?L = "Lexer_new ''######''"
  have h1: "currentChar ?L = Some (CHR ''#'')" by (simp add: Lexer_new_def charAt_def)
  have h2: "position ?L + 5 \<le> length (input ?L)" by (simp add: Lexer_new_def)
  have h3: "\<forall>i<5. input ?L ! (position ?L + i) = CHR ''#''"
    by (simp add: Lexer_new_def eval_nat_numeral less_Suc_eq)
  from header_run_takes_five [OF h1 h2 h3] h1 h2 show ?thesis
    by (simp add: Lexer_new_def)
qed

text \<open>
  C4 as stated fails on a run of six: the first token is Header5 and leaves the lexer at
  index 5 on a \<^verbatim>\<open>#\<close>; the run gives two tokens, Header5 and Header1.
\<close>

theorem six_hashes_are_two_tokens:
  "getNextToken (Lexer_new ''######'') =
     Inr (\<lparr>tokenValue = ''#####'', tokenType = HEADER5\<rparr>,
          \<lparr>position = 5, input = ''######'', currentChar = Some (CHR ''#''),
           lexerToken = \<lparr>tokenValue = ''#####'', tokenType = HEADER5\<rparr>\<rparr>) \<and>
   nextTokens 3 (Lexer_new ''######'') =
     Inr ([\<lparr>tokenValue = ''#####'', tokenType = HEADER5\<rparr>,
           \<lparr>tokenValue = ''#'', tokenType = HEADER1\<rparr>,
           \<lparr>tokenValue = [CHR 0x00], tokenType = EOF\<rparr>],
          \<lparr>position = 5, input = ''######'', currentChar = Some (CHR 0x00),
           lexerToken = \<lparr>tokenValue = [CHR 0x00], tokenType = EOF\<rparr>\<rparr>)"
  by code_simp

section \<open>Reading results\<close>

lemma thenR_InrE:
  assumes "thenR m f = Some (Inr y)"
  obtains x where "m = Some (Inr x)" and "f x = Some (Inr y)"
  using assms by (auto simp: thenR_def split: option.splits sum.splits)

lemma eat_Inr:
  "eat tt P = Inr P1 \<Longrightarrow> tokenType (currentToken P) = tt"
  by (simp add: eat_def split: if_splits)

lemma eat_mismatch:
  "tokenType (currentToken P) \<noteq> tt \<Longrightarrow> eat tt P = Inl (SyntaxError (currentToken P))"
  by (simp add: eat_def invalidTokenError_def)

section \<open>Tokens in front of the parser\<close>

lemma shift_length: "shift k P = Inr (ts, P') \<Longrightarrow> length ts = k"
  by (induction k arbitrary: P ts) (auto split: sum.splits prod.splits)

lemma shift_Cons:
  assumes "shift (Suc k) P = Inr (t # ts, P')"
  shows "currentToken P = t \<and> (\<exists>P1. eat (tokenType t) P = Inr P1 \<and> shift k P1 = Inr (ts, P'))"
  using assms by (auto split: sum.splits prod.splits)

lemma shift_append:
  assumes "shift (length a + k) P = Inr (a @ b, P')"
  shows "\<exists>Pm. shift (length a) P = Inr (a, Pm) \<and> shift k Pm = Inr (b, P')"
  using assms
proof (induction a arbitrary: P)
  case Nil
  then show ?case by simp
next
  case (Cons t a)
  from Cons.prems have "shift (Suc (length a + k)) P = Inr (t # (a @ b), P')" by simp
  from shift_Cons [OF this] obtain P1 where
    t: "currentToken P = t" and e: "eat (tokenType t) P = Inr P1"
    and s: "shift (length a + k) P1 = Inr (a @ b, P')"
    by blast
  from Cons.IH [OF s] obtain Pm where
    "shift (length a) P1 = Inr (a, Pm)" and "shift k Pm = Inr (b, P')"
    by blast
  with t e show ?case by auto
qed

section \<open>Runs of STRING and SPACE tokens\<close>

lemma allCharsStmt_loop_run:
  assumes "shift (length run) P = Inr (run, P')"
    and "\<forall>t\<in>set run. tokenType t \<in> set [STRING, SPACE]"
    and "tokenType (currentToken P') \<notin> set [STRING, SPACE]"
  shows "allCharsStmt_loop (Suc (length run + k)) s P =
           Some (Inr (s @ concat (map tokenValue run), P'))"
  using assms
proof (induction run arbitrary: P s)
  case Nil
  then show ?case by (simp add: allCharsStmt_loop.simps)
next
  case (Cons t run)
  from Cons.prems(1) have "shift (Suc (length run)) P = Inr (t # run, P')" by simp
  from shift_Cons [OF this] obtain P1 where
    t: "currentToken P = t" and e: "eat (tokenType t) P = Inr P1"
    and s: "shift (length run) P1 = Inr (run, P')"
    by blast
  from Cons.prems(2) have tt: "tokenType t \<in> set [STRING, SPACE]"
    and rest: "\<forall>t\<in>set run. tokenType t \<in> set [STRING, SPACE]"
    by simp_all
  have "allCharsStmt_loop (Suc (length run + k)) (s @ tokenValue t) P1 =
          Some (Inr ((s @ tokenValue t) @ concat (map tokenValue run), P'))"
    by (rule Cons.IH [OF s rest Cons.prems(3)])
  with t e tt show ?case
    by (simp add: allCharsStmt_loop.simps(2) [of "Suc (length run + k)"])
qed

lemma allCharsStmt_run:
  assumes "shift (length run) P = Inr (run, P')"
    and "\<forall>t\<in>set run. tokenType t \<in> set [STRING, SPACE]"
    and "tokenType (currentToken P') \<notin> set [STRING, SPACE]"
    and "length run < n"
  shows "allCharsStmt n P =
           Some (Inr (ASTNode StringNode
                        \<lparr>tokenValue = concat (map tokenValue run), tokenType = STRING\<rparr> None [], P'))"
proof -
  from assms(4) obtain k where n: "n = Suc (length run + k)"
    by (metis less_iff_Suc_add add_Suc_right)
  show ?thesis
    unfolding allCharsStmt_def n
    by (simp add: allCharsStmt_loop_run [OF assms(1-3), of k "''''"])
qed

lemma allCharsStmt_node:
  assumes "allCharsStmt n P = Some (Inr (node, P'))"
  shows "nodeType node = StringNode \<and> children node = []"
  using assms unfolding allCharsStmt_def
  by (auto elim!: thenR_InrE)

text \<open>
  C2, as the code has it. Let the tokens in front of the parser be a run of STRING and
  SPACE tokens followed by a token of another kind, and let \<open>T\<close> be the Text node whose
  text is the concatenation of the run's texts. \<^verbatim>\<open>allCharsStmt\<close> returns \<open>T\<close> and stops at
  that token, and so does every rule that reads text through it: the inner rules of bold
  and italic on a STRING append \<open>T\<close> alone and go on behind the run (a bold or italic span
  around the run has \<open>T\<close> as its only child); a monospace span, a code block, a header
  and a list item on a STRING have \<open>T\<close> as their only child; the top level on a SPACE
  returns \<open>T\<close>. On a STRING the top level calls \<^verbatim>\<open>textStmt\<close> instead: the STRING token
  alone becomes a Text node and a following SPACE is left as the current token.
\<close>

theorem run_collapses_under_allCharsStmt:
  assumes run: "shift (length run) P = Inr (run, P')"
    and kinds: "\<forall>t\<in>set run. tokenType t \<in> set [STRING, SPACE]"
    and stop: "tokenType (currentToken P') \<notin> set [STRING, SPACE]"
    and n: "length run < n"
    and T: "T = ASTNode StringNode
                  \<lparr>tokenValue = concat (map tokenValue run), tokenType = STRING\<rparr> None []"
  shows
    "allCharsStmt n P = Some (Inr (T, P')) \<and>
     (tokenType (currentToken P) = STRING \<longrightarrow>
        innerBoldStmt (Suc n) nodes P = innerBoldStmt n (nodes @ [T]) P') \<and>
     (tokenType (currentToken P) = STRING \<longrightarrow>
        innerItalicStmt (Suc n) nodes P = innerItalicStmt n (nodes @ [T]) P') \<and>
     (eat BOLD Op = Inr P \<and> tokenType (currentToken P) = STRING \<and> eat BOLD P' = Inr E \<longrightarrow>
        boldStmt (Suc (Suc n)) Op = Some (Inr (ASTNode Bold (currentToken Op) None [T], E))) \<and>
     (eat ITALIC Op = Inr P \<and> tokenType (currentToken P) = STRING \<and> eat ITALIC P' = Inr E \<longrightarrow>
        italicStmt (Suc (Suc n)) Op = Some (Inr (ASTNode Italic (currentToken Op) None [T], E))) \<and>
     (eat MONOSPACE Op = Inr P \<and> eat MONOSPACE P' = Inr E \<longrightarrow>
        monoSpaceStmt n Op = Some (Inr (ASTNode Monospace (currentToken Op) None [T], E))) \<and>
     (eat CODE Op = Inr A \<and> eat STRING A = Inr B \<and> eat NEWLINE B = Inr P \<and> eat CODE P' = Inr E \<longrightarrow>
        codeStmt n Op =
          Some (Inr (ASTNode Code (currentToken Op) (Some (tokenValue (currentToken A))) [T], E))) \<and>
     (headers (tokenType (currentToken Op)) = Some nt \<and>
      eat (tokenType (currentToken Op)) Op = Inr A \<and> eat SPACE A = Inr P \<longrightarrow>
        headerStmt n Op = Some (Inr (ASTNode nt (currentToken Op) None [T], P'))) \<and>
     (eat UNORDEREDLI Op = Inr A \<and> eat SPACE A = Inr P \<and> tokenType (currentToken P) = STRING \<longrightarrow>
        innerUnorederedLiStmt n Op =
          Some (Inr (ASTNode UnorderedListItem (currentToken Op) None [T], P'))) \<and>
     (tokenType (currentToken P) = SPACE \<longrightarrow> formatStmt n P = Some (Inr (T, P'))) \<and>
     (tokenType (currentToken Q) = STRING \<and> eat STRING Q = Inr Q' \<and>
      tokenType (currentToken Q') = SPACE \<longrightarrow>
        formatStmt (Suc (Suc m)) Q = Some (Inr (ASTNode StringNode (currentToken Q) None [], Q')))"
proof -
  have a: "allCharsStmt n P = Some (Inr (T, P'))"
    unfolding T by (rule allCharsStmt_run [OF run kinds stop n])
  from n obtain j where j: "n = Suc j" by (cases n) simp_all
  have ib: "innerBoldStmt (Suc n) nodes P = innerBoldStmt n (nodes @ [T]) P'"
    if "tokenType (currentToken P) = STRING" for nodes
    using that a by (simp add: innerBoldStmt.simps(2) [of n])
  have ii: "innerItalicStmt (Suc n) nodes P = innerItalicStmt n (nodes @ [T]) P'"
    if "tokenType (currentToken P) = STRING" for nodes
    using that a by (simp add: innerItalicStmt.simps(2) [of n])
  have b: "boldStmt (Suc (Suc n)) Op = Some (Inr (ASTNode Bold (currentToken Op) None [T], E))"
    if h: "eat BOLD Op = Inr P \<and> tokenType (currentToken P) = STRING \<and> eat BOLD P' = Inr E"
  proof -
    from h have t: "tokenType (currentToken P') = BOLD" by (simp add: eat_Inr)
    then have "innerBoldStmt n [T] P' = Some (Inr ([T], P'))"
      unfolding j by (simp add: innerBoldStmt.simps(2) [of j])
    with h ib [of "[]"] have "innerBoldStmt (Suc n) [] P = Some (Inr ([T], P'))" by simp
    with h show ?thesis by (simp add: boldStmt.simps(2) [of "Suc n"])
  qed
  have i: "italicStmt (Suc (Suc n)) Op = Some (Inr (ASTNode Italic (currentToken Op) None [T], E))"
    if h: "eat ITALIC Op = Inr P \<and> tokenType (currentToken P) = STRING \<and> eat ITALIC P' = Inr E"
  proof -
    from h have t: "tokenType (currentToken P') = ITALIC" by (simp add: eat_Inr)
    then have "innerItalicStmt n [T] P' = Some (Inr ([T], P'))"
      unfolding j by (simp add: innerItalicStmt.simps(2) [of j])
    with h ii [of "[]"] have "innerItalicStmt (Suc n) [] P = Some (Inr ([T], P'))" by simp
    with h show ?thesis by (simp add: italicStmt.simps(2) [of "Suc n"])
  qed
  have mo: "monoSpaceStmt n Op = Some (Inr (ASTNode Monospace (currentToken Op) None [T], E))"
    if "eat MONOSPACE Op = Inr P \<and> eat MONOSPACE P' = Inr E"
    using that a by (simp add: monoSpaceStmt_def)
  have co: "codeStmt n Op =
      Some (Inr (ASTNode Code (currentToken Op) (Some (tokenValue (currentToken A))) [T], E))"
    if "eat CODE Op = Inr A \<and> eat STRING A = Inr B \<and> eat NEWLINE B = Inr P \<and> eat CODE P' = Inr E"
    using that a by (simp add: codeStmt_def)
  have he: "headerStmt n Op = Some (Inr (ASTNode nt (currentToken Op) None [T], P'))"
    if "headers (tokenType (currentToken Op)) = Some nt \<and>
        eat (tokenType (currentToken Op)) Op = Inr A \<and> eat SPACE A = Inr P"
    using that a by (simp add: headerStmt_def)
  have li: "innerUnorederedLiStmt n Op =
      Some (Inr (ASTNode UnorderedListItem (currentToken Op) None [T], P'))"
    if "eat UNORDEREDLI Op = Inr A \<and> eat SPACE A = Inr P \<and> tokenType (currentToken P) = STRING"
    using that a by (simp add: innerUnorederedLiStmt_def)
  have sp: "formatStmt n P = Some (Inr (T, P'))" if "tokenType (currentToken P) = SPACE"
    using that a by (simp add: formatStmt_def)
  have st: "formatStmt (Suc (Suc m)) Q = Some (Inr (ASTNode StringNode (currentToken Q) None [], Q'))"
    if h: "tokenType (currentToken Q) = STRING \<and> eat STRING Q = Inr Q' \<and>
        tokenType (currentToken Q') = SPACE"
  proof -
    from h have "textStmt (Suc m) Q' =
        Some (Inr (ASTNode StringNode \<lparr>tokenValue = '''', tokenType = STRING\<rparr> None [], Q'))"
      by (simp add: textStmt.simps)
    with h show ?thesis by (simp add: formatStmt_def textStmt.simps(2) [of "Suc m"])
  qed
  from a ib ii b i mo co he li sp st show ?thesis by (intro conjI impI)
qed

theorem run_collapses_under_allCharsStmt_witness:
  "shift 3 \<lparr>currentToken = \<lparr>tokenValue = ''a'', tokenType = STRING\<rparr>, lexer = \<lparr>position = 3, input = ''**a b**'', currentChar = Some (CHR '' ''), lexerToken = \<lparr>tokenValue = ''a'', tokenType = STRING\<rparr>\<rparr>\<rparr> = Inr ([\<lparr>tokenValue = ''a'', tokenType = STRING\<rparr>, \<lparr>tokenValue = '' '', tokenType = SPACE\<rparr>, \<lparr>tokenValue = ''b'', tokenType = STRING\<rparr>], \<lparr>currentToken = \<lparr>tokenValue = ''**'', tokenType = BOLD\<rparr>, lexer = \<lparr>position = 5, input = ''**a b**'', currentChar = Some (CHR 0x00), lexerToken = \<lparr>tokenValue = ''**'', tokenType = BOLD\<rparr>\<rparr>\<rparr>) \<and>
   allCharsStmt 4 \<lparr>currentToken = \<lparr>tokenValue = ''a'', tokenType = STRING\<rparr>, lexer = \<lparr>position = 3, input = ''**a b**'', currentChar = Some (CHR '' ''), lexerToken = \<lparr>tokenValue = ''a'', tokenType = STRING\<rparr>\<rparr>\<rparr> = Some (Inr (ASTNode StringNode \<lparr>tokenValue = ''a b'', tokenType = STRING\<rparr> None [], \<lparr>currentToken = \<lparr>tokenValue = ''**'', tokenType = BOLD\<rparr>, lexer = \<lparr>position = 5, input = ''**a b**'', currentChar = Some (CHR 0x00), lexerToken = \<lparr>tokenValue = ''**'', tokenType = BOLD\<rparr>\<rparr>\<rparr>)) \<and>
   innerBoldStmt 5 [] \<lparr>currentToken = \<lparr>tokenValue = ''a'', tokenType = STRING\<rparr>, lexer = \<lparr>position = 3, input = ''**a b**'', currentChar = Some (CHR '' ''), lexerToken = \<lparr>tokenValue = ''a'', tokenType = STRING\<rparr>\<rparr>\<rparr> = Some (Inr ([ASTNode StringNode \<lparr>tokenValue = ''a b'', tokenType = STRING\<rparr> None []], \<lparr>currentToken = \<lparr>tokenValue = ''**'', tokenType = BOLD\<rparr>, lexer = \<lparr>position = 5, input = ''**a b**'', currentChar = Some (CHR 0x00), lexerToken = \<lparr>tokenValue = ''**'', tokenType = BOLD\<rparr>\<rparr>\<rparr>)) \<and>
   boldStmt 6 \<lparr>currentToken = \<lparr>tokenValue = ''**'', tokenType = BOLD\<rparr>, lexer = \<lparr>position = 2, input = ''**a b**'', currentChar = Some (CHR ''a''), lexerToken = \<lparr>tokenValue = ''**'', tokenType = BOLD\<rparr>\<rparr>\<rparr> = Some (Inr (ASTNode Bold \<lparr>tokenValue = ''**'', tokenType = BOLD\<rparr> None [ASTNode StringNode \<lparr>tokenValue = ''a b'', tokenType = STRING\<rparr> None []], \<lparr>currentToken = \<lparr>tokenValue = [CHR 0x00], tokenType = EOF\<rparr>, lexer = \<lparr>position = 5, input = ''**a b**'', currentChar = Some (CHR 0x00), lexerToken = \<lparr>tokenValue = [CHR 0x00], tokenType = EOF\<rparr>\<rparr>\<rparr>)) \<and>
   shift 3 \<lparr>currentToken = \<lparr>tokenValue = ''a'', tokenType = STRING\<rparr>, lexer = \<lparr>position = 2, input = ''_a b_'', currentChar = Some (CHR '' ''), lexerToken = \<lparr>tokenValue = ''a'', tokenType = STRING\<rparr>\<rparr>\<rparr> = Inr ([\<lparr>tokenValue = ''a'', tokenType = STRING\<rparr>, \<lparr>tokenValue = '' '', tokenType = SPACE\<rparr>, \<lparr>tokenValue = ''b'', tokenType = STRING\<rparr>], \<lparr>currentToken = \<lparr>tokenValue = ''_'', tokenType = ITALIC\<rparr>, lexer = \<lparr>position = 4, input = ''_a b_'', currentChar = Some (CHR 0x00), lexerToken = \<lparr>tokenValue = ''_'', tokenType = ITALIC\<rparr>\<rparr>\<rparr>) \<and>
   innerItalicStmt 5 [] \<lparr>currentToken = \<lparr>tokenValue = ''a'', tokenType = STRING\<rparr>, lexer = \<lparr>position = 2, input = ''_a b_'', currentChar = Some (CHR '' ''), lexerToken = \<lparr>tokenValue = ''a'', tokenType = STRING\<rparr>\<rparr>\<rparr> = Some (Inr ([ASTNode StringNode \<lparr>tokenValue = ''a b'', tokenType = STRING\<rparr> None []], \<lparr>currentToken = \<lparr>tokenValue = ''_'', tokenType = ITALIC\<rparr>, lexer = \<lparr>position = 4, input = ''_a b_'', currentChar = Some (CHR 0x00), lexerToken = \<lparr>tokenValue = ''_'', tokenType = ITALIC\<rparr>\<rparr>\<rparr>)) \<and>
   italicStmt 6 \<lparr>currentToken = \<lparr>tokenValue = ''_'', tokenType = ITALIC\<rparr>, lexer = \<lparr>position = 1, input = ''_a b_'', currentChar = Some (CHR ''a''), lexerToken = \<lparr>tokenValue = ''_'', tokenType = ITALIC\<rparr>\<rparr>\<rparr> = Some (Inr (ASTNode Italic \<lparr>tokenValue = ''_'', tokenType = ITALIC\<rparr> None [ASTNode StringNode \<lparr>tokenValue = ''a b'', tokenType = STRING\<rparr> None []], \<lparr>currentToken = \<lparr>tokenValue = [CHR 0x00], tokenType = EOF\<rparr>, lexer = \<lparr>position = 4, input = ''_a b_'', currentChar = Some (CHR 0x00), lexerToken = \<lparr>tokenValue = [CHR 0x00], tokenType = EOF\<rparr>\<rparr>\<rparr>)) \<and>
   shift 3 \<lparr>currentToken = \<lparr>tokenValue = ''a'', tokenType = STRING\<rparr>, lexer = \<lparr>position = 2, input = ''`a b`'', currentChar = Some (CHR '' ''), lexerToken = \<lparr>tokenValue = ''a'', tokenType = STRING\<rparr>\<rparr>\<rparr> = Inr ([\<lparr>tokenValue = ''a'', tokenType = STRING\<rparr>, \<lparr>tokenValue = '' '', tokenType = SPACE\<rparr>, \<lparr>tokenValue = ''b'', tokenType = STRING\<rparr>], \<lparr>currentToken = \<lparr>tokenValue = ''`'', tokenType = MONOSPACE\<rparr>, lexer = \<lparr>position = 4, input = ''`a b`'', currentChar = Some (CHR 0x00), lexerToken = \<lparr>tokenValue = ''`'', tokenType = MONOSPACE\<rparr>\<rparr>\<rparr>) \<and>
   monoSpaceStmt 4 \<lparr>currentToken = \<lparr>tokenValue = ''`'', tokenType = MONOSPACE\<rparr>, lexer = \<lparr>position = 1, input = ''`a b`'', currentChar = Some (CHR ''a''), lexerToken = \<lparr>tokenValue = ''`'', tokenType = MONOSPACE\<rparr>\<rparr>\<rparr> = Some (Inr (ASTNode Monospace \<lparr>tokenValue = ''`'', tokenType = MONOSPACE\<rparr> None [ASTNode StringNode \<lparr>tokenValue = ''a b'', tokenType = STRING\<rparr> None []], \<lparr>currentToken = \<lparr>tokenValue = [CHR 0x00], tokenType = EOF\<rparr>, lexer = \<lparr>position = 4, input = ''`a b`'', currentChar = Some (CHR 0x00), lexerToken = \<lparr>tokenValue = [CHR 0x00], tokenType = EOF\<rparr>\<rparr>\<rparr>)) \<and>
   shift 3 \<lparr>currentToken = \<lparr>tokenValue = ''a'', tokenType = STRING\<rparr>, lexer = \<lparr>position = 7, input = ''```js\<newline>a b```'', currentChar = Some (CHR '' ''), lexerToken = \<lparr>tokenValue = ''a'', tokenType = STRING\<rparr>\<rparr>\<rparr> = Inr ([\<lparr>tokenValue = ''a'', tokenType = STRING\<rparr>, \<lparr>tokenValue = '' '', tokenType = SPACE\<rparr>, \<lparr>tokenValue = ''b'', tokenType = STRING\<rparr>], \<lparr>currentToken = \<lparr>tokenValue = ''```'', tokenType = CODE\<rparr>, lexer = \<lparr>position = 9, input = ''```js\<newline>a b```'', currentChar = Some (CHR 0x00), lexerToken = \<lparr>tokenValue = ''```'', tokenType = CODE\<rparr>\<rparr>\<rparr>) \<and>
   codeStmt 4 \<lparr>currentToken = \<lparr>tokenValue = ''```'', tokenType = CODE\<rparr>, lexer = \<lparr>position = 3, input = ''```js\<newline>a b```'', currentChar = Some (CHR ''j''), lexerToken = \<lparr>tokenValue = ''```'', tokenType = CODE\<rparr>\<rparr>\<rparr> = Some (Inr (ASTNode Code \<lparr>tokenValue = ''```'', tokenType = CODE\<rparr> (Some ''js'') [ASTNode StringNode \<lparr>tokenValue = ''a b'', tokenType = STRING\<rparr> None []], \<lparr>currentToken = \<lparr>tokenValue = [CHR 0x00], tokenType = EOF\<rparr>, lexer = \<lparr>position = 9, input = ''```js\<newline>a b```'', currentChar = Some (CHR 0x00), lexerToken = \<lparr>tokenValue = [CHR 0x00], tokenType = EOF\<rparr>\<rparr>\<rparr>)) \<and>
   shift 3 \<lparr>currentToken = \<lparr>tokenValue = ''a'', tokenType = STRING\<rparr>, lexer = \<lparr>position = 5, input = ''### a b'', currentChar = Some (CHR '' ''), lexerToken = \<lparr>tokenValue = ''a'', tokenType = STRING\<rparr>\<rparr>\<rparr> = Inr ([\<lparr>tokenValue = ''a'', tokenType = STRING\<rparr>, \<lparr>tokenValue = '' '', tokenType = SPACE\<rparr>, \<lparr>tokenValue = ''b'', tokenType = STRING\<rparr>], \<lparr>currentToken = \<lparr>tokenValue = [CHR 0x00], tokenType = EOF\<rparr>, lexer = \<lparr>position = 6, input = ''### a b'', currentChar = Some (CHR 0x00), lexerToken = \<lparr>tokenValue = [CHR 0x00], tokenType = EOF\<rparr>\<rparr>\<rparr>) \<and>
   headerStmt 4 \<lparr>currentToken = \<lparr>tokenValue = ''###'', tokenType = HEADER3\<rparr>, lexer = \<lparr>position = 3, input = ''### a b'', currentChar = Some (CHR '' ''), lexerToken = \<lparr>tokenValue = ''###'', tokenType = HEADER3\<rparr>\<rparr>\<rparr> = Some (Inr (ASTNode Header3 \<lparr>tokenValue = ''###'', tokenType = HEADER3\<rparr> None [ASTNode StringNode \<lparr>tokenValue = ''a b'', tokenType = STRING\<rparr> None []], \<lparr>currentToken = \<lparr>tokenValue = [CHR 0x00], tokenType = EOF\<rparr>, lexer = \<lparr>position = 6, input = ''### a b'', currentChar = Some (CHR 0x00), lexerToken = \<lparr>tokenValue = [CHR 0x00], tokenType = EOF\<rparr>\<rparr>\<rparr>)) \<and>
   shift 3 \<lparr>currentToken = \<lparr>tokenValue = ''a'', tokenType = STRING\<rparr>, lexer = \<lparr>position = 3, input = ''- a b'', currentChar = Some (CHR '' ''), lexerToken = \<lparr>tokenValue = ''a'', tokenType = STRING\<rparr>\<rparr>\<rparr> = Inr ([\<lparr>tokenValue = ''a'', tokenType = STRING\<rparr>, \<lparr>tokenValue = '' '', tokenType = SPACE\<rparr>, \<lparr>tokenValue = ''b'', tokenType = STRING\<rparr>], \<lparr>currentToken = \<lparr>tokenValue = [CHR 0x00], tokenType = EOF\<rparr>, lexer = \<lparr>position = 4, input = ''- a b'', currentChar = Some (CHR 0x00), lexerToken = \<lparr>tokenValue = [CHR 0x00], tokenType = EOF\<rparr>\<rparr>\<rparr>) \<and>
   innerUnorederedLiStmt 4 \<lparr>currentToken = \<lparr>tokenValue = ''-'', tokenType = UNORDEREDLI\<rparr>, lexer = \<lparr>position = 1, input = ''- a b'', currentChar = Some (CHR '' ''), lexerToken = \<lparr>tokenValue = ''-'', tokenType = UNORDEREDLI\<rparr>\<rparr>\<rparr> = Some (Inr (ASTNode UnorderedListItem \<lparr>tokenValue = ''-'', tokenType = UNORDEREDLI\<rparr> None [ASTNode StringNode \<lparr>tokenValue = ''a b'', tokenType = STRING\<rparr> None []], \<lparr>currentToken = \<lparr>tokenValue = [CHR 0x00], tokenType = EOF\<rparr>, lexer = \<lparr>position = 4, input = ''- a b'', currentChar = Some (CHR 0x00), lexerToken = \<lparr>tokenValue = [CHR 0x00], tokenType = EOF\<rparr>\<rparr>\<rparr>)) \<and>
   shift 2 \<lparr>currentToken = \<lparr>tokenValue = '' '', tokenType = SPACE\<rparr>, lexer = \<lparr>position = 6, input = ''Hello World'', currentChar = Some (CHR ''W''), lexerToken = \<lparr>tokenValue = '' '', tokenType = SPACE\<rparr>\<rparr>\<rparr> = Inr ([\<lparr>tokenValue = '' '', tokenType = SPACE\<rparr>, \<lparr>tokenValue = ''World'', tokenType = STRING\<rparr>], \<lparr>currentToken = \<lparr>tokenValue = [CHR 0x00], tokenType = EOF\<rparr>, lexer = \<lparr>position = 10, input = ''Hello World'', currentChar = Some (CHR 0x00), lexerToken = \<lparr>tokenValue = [CHR 0x00], tokenType = EOF\<rparr>\<rparr>\<rparr>) \<and>
   formatStmt 3 \<lparr>currentToken = \<lparr>tokenValue = '' '', tokenType = SPACE\<rparr>, lexer = \<lparr>position = 6, input = ''Hello World'', currentChar = Some (CHR ''W''), lexerToken = \<lparr>tokenValue = '' '', tokenType = SPACE\<rparr>\<rparr>\<rparr> = Some (Inr (ASTNode StringNode \<lparr>tokenValue = '' World'', tokenType = STRING\<rparr> None [], \<lparr>currentToken = \<lparr>tokenValue = [CHR 0x00], tokenType = EOF\<rparr>, lexer = \<lparr>position = 10, input = ''Hello World'', currentChar = Some (CHR 0x00), lexerToken = \<lparr>tokenValue = [CHR 0x00], tokenType = EOF\<rparr>\<rparr>\<rparr>)) \<and>
   formatStmt 2 \<lparr>currentToken = \<lparr>tokenValue = ''Hello'', tokenType = STRING\<rparr>, lexer = \<lparr>position = 5, input = ''Hello World'', currentChar = Some (CHR '' ''), lexerToken = \<lparr>tokenValue = ''Hello'', tokenType = STRING\<rparr>\<rparr>\<rparr> = Some (Inr (ASTNode StringNode \<lparr>tokenValue = ''Hello'', tokenType = STRING\<rparr> None [], \<lparr>currentToken = \<lparr>tokenValue = '' '', tokenType = SPACE\<rparr>, lexer = \<lparr>position = 6, input = ''Hello World'', currentChar = Some (CHR ''W''), lexerToken = \<lparr>tokenValue = '' '', tokenType = SPACE\<rparr>\<rparr>\<rparr>))"
proof -
  have b_sh: "shift (length [\<lparr>tokenValue = ''a'', tokenType = STRING\<rparr>, \<lparr>tokenValue = '' '', tokenType = SPACE\<rparr>, \<lparr>tokenValue = ''b'', tokenType = STRING\<rparr>]) \<lparr>currentToken = \<lparr>tokenValue = ''a'', tokenType = STRING\<rparr>, lexer = \<lparr>position = 3, input = ''**a b**'', currentChar = Some (CHR '' ''), lexerToken = \<lparr>tokenValue = ''a'', tokenType = STRING\<rparr>\<rparr>\<rparr> = Inr ([\<lparr>tokenValue = ''a'', tokenType = STRING\<rparr>, \<lparr>tokenValue = '' '', tokenType = SPACE\<rparr>, \<lparr>tokenValue = ''b'', tokenType = STRING\<rparr>], \<lparr>currentToken = \<lparr>tokenValue = ''**'', tokenType = BOLD\<rparr>, lexer = \<lparr>position = 5, input = ''**a b**'', currentChar = Some (CHR 0x00), lexerToken = \<lparr>tokenValue = ''**'', tokenType = BOLD\<rparr>\<rparr>\<rparr>)"
    by code_simp
  have b_k: "\<forall>t\<in>set [\<lparr>tokenValue = ''a'', tokenType = STRING\<rparr>, \<lparr>tokenValue = '' '', tokenType = SPACE\<rparr>, \<lparr>tokenValue = ''b'', tokenType = STRING\<rparr>]. tokenType t \<in> set [STRING, SPACE]" by simp
  have b_st: "tokenType (currentToken \<lparr>currentToken = \<lparr>tokenValue = ''**'', tokenType = BOLD\<rparr>, lexer = \<lparr>position = 5, input = ''**a b**'', currentChar = Some (CHR 0x00), lexerToken = \<lparr>tokenValue = ''**'', tokenType = BOLD\<rparr>\<rparr>\<rparr>) \<notin> set [STRING, SPACE]" by simp
  have b_n: "length [\<lparr>tokenValue = ''a'', tokenType = STRING\<rparr>, \<lparr>tokenValue = '' '', tokenType = SPACE\<rparr>, \<lparr>tokenValue = ''b'', tokenType = STRING\<rparr>] < 4" by simp
  have b_h0: "eat BOLD \<lparr>currentToken = \<lparr>tokenValue = ''**'', tokenType = BOLD\<rparr>, lexer = \<lparr>position = 2, input = ''**a b**'', currentChar = Some (CHR ''a''), lexerToken = \<lparr>tokenValue = ''**'', tokenType = BOLD\<rparr>\<rparr>\<rparr> = Inr \<lparr>currentToken = \<lparr>tokenValue = ''a'', tokenType = STRING\<rparr>, lexer = \<lparr>position = 3, input = ''**a b**'', currentChar = Some (CHR '' ''), lexerToken = \<lparr>tokenValue = ''a'', tokenType = STRING\<rparr>\<rparr>\<rparr>" by code_simp
  have b_h1: "eat BOLD \<lparr>currentToken = \<lparr>tokenValue = ''**'', tokenType = BOLD\<rparr>, lexer = \<lparr>position = 5, input = ''**a b**'', currentChar = Some (CHR 0x00), lexerToken = \<lparr>tokenValue = ''**'', tokenType = BOLD\<rparr>\<rparr>\<rparr> = Inr \<lparr>currentToken = \<lparr>tokenValue = [CHR 0x00], tokenType = EOF\<rparr>, lexer = \<lparr>position = 5, input = ''**a b**'', currentChar = Some (CHR 0x00), lexerToken = \<lparr>tokenValue = [CHR 0x00], tokenType = EOF\<rparr>\<rparr>\<rparr>" by code_simp
  have b_h2: "innerBoldStmt 4 [ASTNode StringNode \<lparr>tokenValue = ''a b'', tokenType = STRING\<rparr> None []] \<lparr>currentToken = \<lparr>tokenValue = ''**'', tokenType = BOLD\<rparr>, lexer = \<lparr>position = 5, input = ''**a b**'', currentChar = Some (CHR 0x00), lexerToken = \<lparr>tokenValue = ''**'', tokenType = BOLD\<rparr>\<rparr>\<rparr> = Some (Inr ([ASTNode StringNode \<lparr>tokenValue = ''a b'', tokenType = STRING\<rparr> None []], \<lparr>currentToken = \<lparr>tokenValue = ''**'', tokenType = BOLD\<rparr>, lexer = \<lparr>position = 5, input = ''**a b**'', currentChar = Some (CHR 0x00), lexerToken = \<lparr>tokenValue = ''**'', tokenType = BOLD\<rparr>\<rparr>\<rparr>))" by code_simp
  have b_s3: "shift 3 \<lparr>currentToken = \<lparr>tokenValue = ''a'', tokenType = STRING\<rparr>, lexer = \<lparr>position = 3, input = ''**a b**'', currentChar = Some (CHR '' ''), lexerToken = \<lparr>tokenValue = ''a'', tokenType = STRING\<rparr>\<rparr>\<rparr> = Inr ([\<lparr>tokenValue = ''a'', tokenType = STRING\<rparr>, \<lparr>tokenValue = '' '', tokenType = SPACE\<rparr>, \<lparr>tokenValue = ''b'', tokenType = STRING\<rparr>], \<lparr>currentToken = \<lparr>tokenValue = ''**'', tokenType = BOLD\<rparr>, lexer = \<lparr>position = 5, input = ''**a b**'', currentChar = Some (CHR 0x00), lexerToken = \<lparr>tokenValue = ''**'', tokenType = BOLD\<rparr>\<rparr>\<rparr>)" by code_simp
  have b: "allCharsStmt 4 \<lparr>currentToken = \<lparr>tokenValue = ''a'', tokenType = STRING\<rparr>, lexer = \<lparr>position = 3, input = ''**a b**'', currentChar = Some (CHR '' ''), lexerToken = \<lparr>tokenValue = ''a'', tokenType = STRING\<rparr>\<rparr>\<rparr> = Some (Inr (ASTNode StringNode \<lparr>tokenValue = ''a b'', tokenType = STRING\<rparr> None [], \<lparr>currentToken = \<lparr>tokenValue = ''**'', tokenType = BOLD\<rparr>, lexer = \<lparr>position = 5, input = ''**a b**'', currentChar = Some (CHR 0x00), lexerToken = \<lparr>tokenValue = ''**'', tokenType = BOLD\<rparr>\<rparr>\<rparr>))"
    "innerBoldStmt 5 [] \<lparr>currentToken = \<lparr>tokenValue = ''a'', tokenType = STRING\<rparr>, lexer = \<lparr>position = 3, input = ''**a b**'', currentChar = Some (CHR '' ''), lexerToken = \<lparr>tokenValue = ''a'', tokenType = STRING\<rparr>\<rparr>\<rparr> = Some (Inr ([ASTNode StringNode \<lparr>tokenValue = ''a b'', tokenType = STRING\<rparr> None []], \<lparr>currentToken = \<lparr>tokenValue = ''**'', tokenType = BOLD\<rparr>, lexer = \<lparr>position = 5, input = ''**a b**'', currentChar = Some (CHR 0x00), lexerToken = \<lparr>tokenValue = ''**'', tokenType = BOLD\<rparr>\<rparr>\<rparr>))"
    "boldStmt 6 \<lparr>currentToken = \<lparr>tokenValue = ''**'', tokenType = BOLD\<rparr>, lexer = \<lparr>position = 2, input = ''**a b**'', currentChar = Some (CHR ''a''), lexerToken = \<lparr>tokenValue = ''**'', tokenType = BOLD\<rparr>\<rparr>\<rparr> = Some (Inr (ASTNode Bold \<lparr>tokenValue = ''**'', tokenType = BOLD\<rparr> None [ASTNode StringNode \<lparr>tokenValue = ''a b'', tokenType = STRING\<rparr> None []], \<lparr>currentToken = \<lparr>tokenValue = [CHR 0x00], tokenType = EOF\<rparr>, lexer = \<lparr>position = 5, input = ''**a b**'', currentChar = Some (CHR 0x00), lexerToken = \<lparr>tokenValue = [CHR 0x00], tokenType = EOF\<rparr>\<rparr>\<rparr>))"
    using run_collapses_under_allCharsStmt [OF b_sh b_k b_st b_n refl, where nodes = "[]" and Op = "\<lparr>currentToken = \<lparr>tokenValue = ''**'', tokenType = BOLD\<rparr>, lexer = \<lparr>position = 2, input = ''**a b**'', currentChar = Some (CHR ''a''), lexerToken = \<lparr>tokenValue = ''**'', tokenType = BOLD\<rparr>\<rparr>\<rparr>" and E = "\<lparr>currentToken = \<lparr>tokenValue = [CHR 0x00], tokenType = EOF\<rparr>, lexer = \<lparr>position = 5, input = ''**a b**'', currentChar = Some (CHR 0x00), lexerToken = \<lparr>tokenValue = [CHR 0x00], tokenType = EOF\<rparr>\<rparr>\<rparr>"] b_h0 b_h1 b_h2
    by (simp_all add: headers_def)
  have i_sh: "shift (length [\<lparr>tokenValue = ''a'', tokenType = STRING\<rparr>, \<lparr>tokenValue = '' '', tokenType = SPACE\<rparr>, \<lparr>tokenValue = ''b'', tokenType = STRING\<rparr>]) \<lparr>currentToken = \<lparr>tokenValue = ''a'', tokenType = STRING\<rparr>, lexer = \<lparr>position = 2, input = ''_a b_'', currentChar = Some (CHR '' ''), lexerToken = \<lparr>tokenValue = ''a'', tokenType = STRING\<rparr>\<rparr>\<rparr> = Inr ([\<lparr>tokenValue = ''a'', tokenType = STRING\<rparr>, \<lparr>tokenValue = '' '', tokenType = SPACE\<rparr>, \<lparr>tokenValue = ''b'', tokenType = STRING\<rparr>], \<lparr>currentToken = \<lparr>tokenValue = ''_'', tokenType = ITALIC\<rparr>, lexer = \<lparr>position = 4, input = ''_a b_'', currentChar = Some (CHR 0x00), lexerToken = \<lparr>tokenValue = ''_'', tokenType = ITALIC\<rparr>\<rparr>\<rparr>)"
    by code_simp
  have i_k: "\<forall>t\<in>set [\<lparr>tokenValue = ''a'', tokenType = STRING\<rparr>, \<lparr>tokenValue = '' '', tokenType = SPACE\<rparr>, \<lparr>tokenValue = ''b'', tokenType = STRING\<rparr>]. tokenType t \<in> set [STRING, SPACE]" by simp
  have i_st: "tokenType (currentToken \<lparr>currentToken = \<lparr>tokenValue = ''_'', tokenType = ITALIC\<rparr>, lexer = \<lparr>position = 4, input = ''_a b_'', currentChar = Some (CHR 0x00), lexerToken = \<lparr>tokenValue = ''_'', tokenType = ITALIC\<rparr>\<rparr>\<rparr>) \<notin> set [STRING, SPACE]" by simp
  have i_n: "length [\<lparr>tokenValue = ''a'', tokenType = STRING\<rparr>, \<lparr>tokenValue = '' '', tokenType = SPACE\<rparr>, \<lparr>tokenValue = ''b'', tokenType = STRING\<rparr>] < 4" by simp
  have i_h0: "eat ITALIC \<lparr>currentToken = \<lparr>tokenValue = ''_'', tokenType = ITALIC\<rparr>, lexer = \<lparr>position = 1, input = ''_a b_'', currentChar = Some (CHR ''a''), lexerToken = \<lparr>tokenValue = ''_'', tokenType = ITALIC\<rparr>\<rparr>\<rparr> = Inr \<lparr>currentToken = \<lparr>tokenValue = ''a'', tokenType = STRING\<rparr>, lexer = \<lparr>position = 2, input = ''_a b_'', currentChar = Some (CHR '' ''), lexerToken = \<lparr>tokenValue = ''a'', tokenType = STRING\<rparr>\<rparr>\<rparr>" by code_simp
  have i_h1: "eat ITALIC \<lparr>currentToken = \<lparr>tokenValue = ''_'', tokenType = ITALIC\<rparr>, lexer = \<lparr>position = 4, input = ''_a b_'', currentChar = Some (CHR 0x00), lexerToken = \<lparr>tokenValue = ''_'', tokenType = ITALIC\<rparr>\<rparr>\<rparr> = Inr \<lparr>currentToken = \<lparr>tokenValue = [CHR 0x00], tokenType = EOF\<rparr>, lexer = \<lparr>position = 4, input = ''_a b_'', currentChar = Some (CHR 0x00), lexerToken = \<lparr>tokenValue = [CHR 0x00], tokenType = EOF\<rparr>\<rparr>\<rparr>" by code_simp
  have i_h2: "innerItalicStmt 4 [ASTNode StringNode \<lparr>tokenValue = ''a b'', tokenType = STRING\<rparr> None []] \<lparr>currentToken = \<lparr>tokenValue = ''_'', tokenType = ITALIC\<rparr>, lexer = \<lparr>position = 4, input = ''_a b_'', currentChar = Some (CHR 0x00), lexerToken = \<lparr>tokenValue = ''_'', tokenType = ITALIC\<rparr>\<rparr>\<rparr> = Some (Inr ([ASTNode StringNode \<lparr>tokenValue = ''a b'', tokenType = STRING\<rparr> None []], \<lparr>currentToken = \<lparr>tokenValue = ''_'', tokenType = ITALIC\<rparr>, lexer = \<lparr>position = 4, input = ''_a b_'', currentChar = Some (CHR 0x00), lexerToken = \<lparr>tokenValue = ''_'', tokenType = ITALIC\<rparr>\<rparr>\<rparr>))" by code_simp
  have i_s3: "shift 3 \<lparr>currentToken = \<lparr>tokenValue = ''a'', tokenType = STRING\<rparr>, lexer = \<lparr>position = 2, input = ''_a b_'', currentChar = Some (CHR '' ''), lexerToken = \<lparr>tokenValue = ''a'', tokenType = STRING\<rparr>\<rparr>\<rparr> = Inr ([\<lparr>tokenValue = ''a'', tokenType = STRING\<rparr>, \<lparr>tokenValue = '' '', tokenType = SPACE\<rparr>, \<lparr>tokenValue = ''b'', tokenType = STRING\<rparr>], \<lparr>currentToken = \<lparr>tokenValue = ''_'', tokenType = ITALIC\<rparr>, lexer = \<lparr>position = 4, input = ''_a b_'', currentChar = Some (CHR 0x00), lexerToken = \<lparr>tokenValue = ''_'', tokenType = ITALIC\<rparr>\<rparr>\<rparr>)" by code_simp
  have i: "innerItalicStmt 5 [] \<lparr>currentToken = \<lparr>tokenValue = ''a'', tokenType = STRING\<rparr>, lexer = \<lparr>position = 2, input = ''_a b_'', currentChar = Some (CHR '' ''), lexerToken = \<lparr>tokenValue = ''a'', tokenType = STRING\<rparr>\<rparr>\<rparr> = Some (Inr ([ASTNode StringNode \<lparr>tokenValue = ''a b'', tokenType = STRING\<rparr> None []], \<lparr>currentToken = \<lparr>tokenValue = ''_'', tokenType = ITALIC\<rparr>, lexer = \<lparr>position = 4, input = ''_a b_'', currentChar = Some (CHR 0x00), lexerToken = \<lparr>tokenValue = ''_'', tokenType = ITALIC\<rparr>\<rparr>\<rparr>))"
    "italicStmt 6 \<lparr>currentToken = \<lparr>tokenValue = ''_'', tokenType = ITALIC\<rparr>, lexer = \<lparr>position = 1, input = ''_a b_'', currentChar = Some (CHR ''a''), lexerToken = \<lparr>tokenValue = ''_'', tokenType = ITALIC\<rparr>\<rparr>\<rparr> = Some (Inr (ASTNode Italic \<lparr>tokenValue = ''_'', tokenType = ITALIC\<rparr> None [ASTNode StringNode \<lparr>tokenValue = ''a b'', tokenType = STRING\<rparr> None []], \<lparr>currentToken = \<lparr>tokenValue = [CHR 0x00], tokenType = EOF\<rparr>, lexer = \<lparr>position = 4, input = ''_a b_'', currentChar = Some (CHR 0x00), lexerToken = \<lparr>tokenValue = [CHR 0x00], tokenType = EOF\<rparr>\<rparr>\<rparr>))"
    using run_collapses_under_allCharsStmt [OF i_sh i_k i_st i_n refl, where nodes = "[]" and Op = "\<lparr>currentToken = \<lparr>tokenValue = ''_'', tokenType = ITALIC\<rparr>, lexer = \<lparr>position = 1, input = ''_a b_'', currentChar = Some (CHR ''a''), lexerToken = \<lparr>tokenValue = ''_'', tokenType = ITALIC\<rparr>\<rparr>\<rparr>" and E = "\<lparr>currentToken = \<lparr>tokenValue = [CHR 0x00], tokenType = EOF\<rparr>, lexer = \<lparr>position = 4, input = ''_a b_'', currentChar = Some (CHR 0x00), lexerToken = \<lparr>tokenValue = [CHR 0x00], tokenType = EOF\<rparr>\<rparr>\<rparr>"] i_h0 i_h1 i_h2
    by (simp_all add: headers_def)
  have m_sh: "shift (length [\<lparr>tokenValue = ''a'', tokenType = STRING\<rparr>, \<lparr>tokenValue = '' '', tokenType = SPACE\<rparr>, \<lparr>tokenValue = ''b'', tokenType = STRING\<rparr>]) \<lparr>currentToken = \<lparr>tokenValue = ''a'', tokenType = STRING\<rparr>, lexer = \<lparr>position = 2, input = ''`a b`'', currentChar = Some (CHR '' ''), lexerToken = \<lparr>tokenValue = ''a'', tokenType = STRING\<rparr>\<rparr>\<rparr> = Inr ([\<lparr>tokenValue = ''a'', tokenType = STRING\<rparr>, \<lparr>tokenValue = '' '', tokenType = SPACE\<rparr>, \<lparr>tokenValue = ''b'', tokenType = STRING\<rparr>], \<lparr>currentToken = \<lparr>tokenValue = ''`'', tokenType = MONOSPACE\<rparr>, lexer = \<lparr>position = 4, input = ''`a b`'', currentChar = Some (CHR 0x00), lexerToken = \<lparr>tokenValue = ''`'', tokenType = MONOSPACE\<rparr>\<rparr>\<rparr>)"
    by code_simp
  have m_k: "\<forall>t\<in>set [\<lparr>tokenValue = ''a'', tokenType = STRING\<rparr>, \<lparr>tokenValue = '' '', tokenType = SPACE\<rparr>, \<lparr>tokenValue = ''b'', tokenType = STRING\<rparr>]. tokenType t \<in> set [STRING, SPACE]" by simp
  have m_st: "tokenType (currentToken \<lparr>currentToken = \<lparr>tokenValue = ''`'', tokenType = MONOSPACE\<rparr>, lexer = \<lparr>position = 4, input = ''`a b`'', currentChar = Some (CHR 0x00), lexerToken = \<lparr>tokenValue = ''`'', tokenType = MONOSPACE\<rparr>\<rparr>\<rparr>) \<notin> set [STRING, SPACE]" by simp
  have m_n: "length [\<lparr>tokenValue = ''a'', tokenType = STRING\<rparr>, \<lparr>tokenValue = '' '', tokenType = SPACE\<rparr>, \<lparr>tokenValue = ''b'', tokenType = STRING\<rparr>] < 4" by simp
  have m_h0: "eat MONOSPACE \<lparr>currentToken = \<lparr>tokenValue = ''`'', tokenType = MONOSPACE\<rparr>, lexer = \<lparr>position = 1, input = ''`a b`'', currentChar = Some (CHR ''a''), lexerToken = \<lparr>tokenValue = ''`'', tokenType = MONOSPACE\<rparr>\<rparr>\<rparr> = Inr \<lparr>currentToken = \<lparr>tokenValue = ''a'', tokenType = STRING\<rparr>, lexer = \<lparr>position = 2, input = ''`a b`'', currentChar = Some (CHR '' ''), lexerToken = \<lparr>tokenValue = ''a'', tokenType = STRING\<rparr>\<rparr>\<rparr>" by code_simp
  have m_h1: "eat MONOSPACE \<lparr>currentToken = \<lparr>tokenValue = ''`'', tokenType = MONOSPACE\<rparr>, lexer = \<lparr>position = 4, input = ''`a b`'', currentChar = Some (CHR 0x00), lexerToken = \<lparr>tokenValue = ''`'', tokenType = MONOSPACE\<rparr>\<rparr>\<rparr> = Inr \<lparr>currentToken = \<lparr>tokenValue = [CHR 0x00], tokenType = EOF\<rparr>, lexer = \<lparr>position = 4, input = ''`a b`'', currentChar = Some (CHR 0x00), lexerToken = \<lparr>tokenValue = [CHR 0x00], tokenType = EOF\<rparr>\<rparr>\<rparr>" by code_simp
  have m_s3: "shift 3 \<lparr>currentToken = \<lparr>tokenValue = ''a'', tokenType = STRING\<rparr>, lexer = \<lparr>position = 2, input = ''`a b`'', currentChar = Some (CHR '' ''), lexerToken = \<lparr>tokenValue = ''a'', tokenType = STRING\<rparr>\<rparr>\<rparr> = Inr ([\<lparr>tokenValue = ''a'', tokenType = STRING\<rparr>, \<lparr>tokenValue = '' '', tokenType = SPACE\<rparr>, \<lparr>tokenValue = ''b'', tokenType = STRING\<rparr>], \<lparr>currentToken = \<lparr>tokenValue = ''`'', tokenType = MONOSPACE\<rparr>, lexer = \<lparr>position = 4, input = ''`a b`'', currentChar = Some (CHR 0x00), lexerToken = \<lparr>tokenValue = ''`'', tokenType = MONOSPACE\<rparr>\<rparr>\<rparr>)" by code_simp
  have m: "monoSpaceStmt 4 \<lparr>currentToken = \<lparr>tokenValue = ''`'', tokenType = MONOSPACE\<rparr>, lexer = \<lparr>position = 1, input = ''`a b`'', currentChar = Some (CHR ''a''), lexerToken = \<lparr>tokenValue = ''`'', tokenType = MONOSPACE\<rparr>\<rparr>\<rparr> = Some (Inr (ASTNode Monospace \<lparr>tokenValue = ''`'', tokenType = MONOSPACE\<rparr> None [ASTNode StringNode \<lparr>tokenValue = ''a b'', tokenType = STRING\<rparr> None []], \<lparr>currentToken = \<lparr>tokenValue = [CHR 0x00], tokenType = EOF\<rparr>, lexer = \<lparr>position = 4, input = ''`a b`'', currentChar = Some (CHR 0x00), lexerToken = \<lparr>tokenValue = [CHR 0x00], tokenType = EOF\<rparr>\<rparr>\<rparr>))"
    using run_collapses_under_allCharsStmt [OF m_sh m_k m_st m_n refl, where Op = "\<lparr>currentToken = \<lparr>tokenValue = ''`'', tokenType = MONOSPACE\<rparr>, lexer = \<lparr>position = 1, input = ''`a b`'', currentChar = Some (CHR ''a''), lexerToken = \<lparr>tokenValue = ''`'', tokenType = MONOSPACE\<rparr>\<rparr>\<rparr>" and E = "\<lparr>currentToken = \<lparr>tokenValue = [CHR 0x00], tokenType = EOF\<rparr>, lexer = \<lparr>position = 4, input = ''`a b`'', currentChar = Some (CHR 0x00), lexerToken = \<lparr>tokenValue = [CHR 0x00], tokenType = EOF\<rparr>\<rparr>\<rparr>"] m_h0 m_h1
    by (simp_all add: headers_def)
  have c_sh: "shift (length [\<lparr>tokenValue = ''a'', tokenType = STRING\<rparr>, \<lparr>tokenValue = '' '', tokenType = SPACE\<rparr>, \<lparr>tokenValue = ''b'', tokenType = STRING\<rparr>]) \<lparr>currentToken = \<lparr>tokenValue = ''a'', tokenType = STRING\<rparr>, lexer = \<lparr>position = 7, input = ''```js\<newline>a b```'', currentChar = Some (CHR '' ''), lexerToken = \<lparr>tokenValue = ''a'', tokenType = STRING\<rparr>\<rparr>\<rparr> = Inr ([\<lparr>tokenValue = ''a'', tokenType = STRING\<rparr>, \<lparr>tokenValue = '' '', tokenType = SPACE\<rparr>, \<lparr>tokenValue = ''b'', tokenType = STRING\<rparr>], \<lparr>currentToken = \<lparr>tokenValue = ''```'', tokenType = CODE\<rparr>, lexer = \<lparr>position = 9, input = ''```js\<newline>a b```'', currentChar = Some (CHR 0x00), lexerToken = \<lparr>tokenValue = ''```'', tokenType = CODE\<rparr>\<rparr>\<rparr>)"
    by code_simp
  have c_k: "\<forall>t\<in>set [\<lparr>tokenValue = ''a'', tokenType = STRING\<rparr>, \<lparr>tokenValue = '' '', tokenType = SPACE\<rparr>, \<lparr>tokenValue = ''b'', tokenType = STRING\<rparr>]. tokenType t \<in> set [STRING, SPACE]" by simp
  have c_st: "tokenType (currentToken \<lparr>currentToken = \<lparr>tokenValue = ''```'', tokenType = CODE\<rparr>, lexer = \<lparr>position = 9, input = ''```js\<newline>a b```'', currentChar = Some (CHR 0x00), lexerToken = \<lparr>tokenValue = ''```'', tokenType = CODE\<rparr>\<rparr>\<rparr>) \<notin> set [STRING, SPACE]" by simp
  have c_n: "length [\<lparr>tokenValue = ''a'', tokenType = STRING\<rparr>, \<lparr>tokenValue = '' '', tokenType = SPACE\<rparr>, \<lparr>tokenValue = ''b'', tokenType = STRING\<rparr>] < 4" by simp
  have c_h0: "eat CODE \<lparr>currentToken = \<lparr>tokenValue = ''```'', tokenType = CODE\<rparr>, lexer = \<lparr>position = 3, input = ''```js\<newline>a b```'', currentChar = Some (CHR ''j''), lexerToken = \<lparr>tokenValue = ''```'', tokenType = CODE\<rparr>\<rparr>\<rparr> = Inr \<lparr>currentToken = \<lparr>tokenValue = ''js'', tokenType = STRING\<rparr>, lexer = \<lparr>position = 5, input = ''```js\<newline>a b```'', currentChar = Some (CHR ''\<newline>''), lexerToken = \<lparr>tokenValue = ''js'', tokenType = STRING\<rparr>\<rparr>\<rparr>" by code_simp
  have c_h1: "eat STRING \<lparr>currentToken = \<lparr>tokenValue = ''js'', tokenType = STRING\<rparr>, lexer = \<lparr>position = 5, input = ''```js\<newline>a b```'', currentChar = Some (CHR ''\<newline>''), lexerToken = \<lparr>tokenValue = ''js'', tokenType = STRING\<rparr>\<rparr>\<rparr> = Inr \<lparr>currentToken = \<lparr>tokenValue = ''\<newline>'', tokenType = NEWLINE\<rparr>, lexer = \<lparr>position = 6, input = ''```js\<newline>a b```'', currentChar = Some (CHR ''a''), lexerToken = \<lparr>tokenValue = ''\<newline>'', tokenType = NEWLINE\<rparr>\<rparr>\<rparr>" by code_simp
  have c_h2: "eat NEWLINE \<lparr>currentToken = \<lparr>tokenValue = ''\<newline>'', tokenType = NEWLINE\<rparr>, lexer = \<lparr>position = 6, input = ''```js\<newline>a b```'', currentChar = Some (CHR ''a''), lexerToken = \<lparr>tokenValue = ''\<newline>'', tokenType = NEWLINE\<rparr>\<rparr>\<rparr> = Inr \<lparr>currentToken = \<lparr>tokenValue = ''a'', tokenType = STRING\<rparr>, lexer = \<lparr>position = 7, input = ''```js\<newline>a b```'', currentChar = Some (CHR '' ''), lexerToken = \<lparr>tokenValue = ''a'', tokenType = STRING\<rparr>\<rparr>\<rparr>" by code_simp
  have c_h3: "eat CODE \<lparr>currentToken = \<lparr>tokenValue = ''```'', tokenType = CODE\<rparr>, lexer = \<lparr>position = 9, input = ''```js\<newline>a b```'', currentChar = Some (CHR 0x00), lexerToken = \<lparr>tokenValue = ''```'', tokenType = CODE\<rparr>\<rparr>\<rparr> = Inr \<lparr>currentToken = \<lparr>tokenValue = [CHR 0x00], tokenType = EOF\<rparr>, lexer = \<lparr>position = 9, input = ''```js\<newline>a b```'', currentChar = Some (CHR 0x00), lexerToken = \<lparr>tokenValue = [CHR 0x00], tokenType = EOF\<rparr>\<rparr>\<rparr>" by code_simp
  have c_s3: "shift 3 \<lparr>currentToken = \<lparr>tokenValue = ''a'', tokenType = STRING\<rparr>, lexer = \<lparr>position = 7, input = ''```js\<newline>a b```'', currentChar = Some (CHR '' ''), lexerToken = \<lparr>tokenValue = ''a'', tokenType = STRING\<rparr>\<rparr>\<rparr> = Inr ([\<lparr>tokenValue = ''a'', tokenType = STRING\<rparr>, \<lparr>tokenValue = '' '', tokenType = SPACE\<rparr>, \<lparr>tokenValue = ''b'', tokenType = STRING\<rparr>], \<lparr>currentToken = \<lparr>tokenValue = ''```'', tokenType = CODE\<rparr>, lexer = \<lparr>position = 9, input = ''```js\<newline>a b```'', currentChar = Some (CHR 0x00), lexerToken = \<lparr>tokenValue = ''```'', tokenType = CODE\<rparr>\<rparr>\<rparr>)" by code_simp
  have c: "codeStmt 4 \<lparr>currentToken = \<lparr>tokenValue = ''```'', tokenType = CODE\<rparr>, lexer = \<lparr>position = 3, input = ''```js\<newline>a b```'', currentChar = Some (CHR ''j''), lexerToken = \<lparr>tokenValue = ''```'', tokenType = CODE\<rparr>\<rparr>\<rparr> = Some (Inr (ASTNode Code \<lparr>tokenValue = ''```'', tokenType = CODE\<rparr> (Some ''js'') [ASTNode StringNode \<lparr>tokenValue = ''a b'', tokenType = STRING\<rparr> None []], \<lparr>currentToken = \<lparr>tokenValue = [CHR 0x00], tokenType = EOF\<rparr>, lexer = \<lparr>position = 9, input = ''```js\<newline>a b```'', currentChar = Some (CHR 0x00), lexerToken = \<lparr>tokenValue = [CHR 0x00], tokenType = EOF\<rparr>\<rparr>\<rparr>))"
    using run_collapses_under_allCharsStmt [OF c_sh c_k c_st c_n refl, where Op = "\<lparr>currentToken = \<lparr>tokenValue = ''```'', tokenType = CODE\<rparr>, lexer = \<lparr>position = 3, input = ''```js\<newline>a b```'', currentChar = Some (CHR ''j''), lexerToken = \<lparr>tokenValue = ''```'', tokenType = CODE\<rparr>\<rparr>\<rparr>" and A = "\<lparr>currentToken = \<lparr>tokenValue = ''js'', tokenType = STRING\<rparr>, lexer = \<lparr>position = 5, input = ''```js\<newline>a b```'', currentChar = Some (CHR ''\<newline>''), lexerToken = \<lparr>tokenValue = ''js'', tokenType = STRING\<rparr>\<rparr>\<rparr>" and B = "\<lparr>currentToken = \<lparr>tokenValue = ''\<newline>'', tokenType = NEWLINE\<rparr>, lexer = \<lparr>position = 6, input = ''```js\<newline>a b```'', currentChar = Some (CHR ''a''), lexerToken = \<lparr>tokenValue = ''\<newline>'', tokenType = NEWLINE\<rparr>\<rparr>\<rparr>" and E = "\<lparr>currentToken = \<lparr>tokenValue = [CHR 0x00], tokenType = EOF\<rparr>, lexer = \<lparr>position = 9, input = ''```js\<newline>a b```'', currentChar = Some (CHR 0x00), lexerToken = \<lparr>tokenValue = [CHR 0x00], tokenType = EOF\<rparr>\<rparr>\<rparr>"] c_h0 c_h1 c_h2 c_h3
    by (simp_all add: headers_def)
  have h_sh: "shift (length [\<lparr>tokenValue = ''a'', tokenType = STRING\<rparr>, \<lparr>tokenValue = '' '', tokenType = SPACE\<rparr>, \<lparr>tokenValue = ''b'', tokenType = STRING\<rparr>]) \<lparr>currentToken = \<lparr>tokenValue = ''a'', tokenType = STRING\<rparr>, lexer = \<lparr>position = 5, input = ''### a b'', currentChar = Some (CHR '' ''), lexerToken = \<lparr>tokenValue = ''a'', tokenType = STRING\<rparr>\<rparr>\<rparr> = Inr ([\<lparr>tokenValue = ''a'', tokenType = STRING\<rparr>, \<lparr>tokenValue = '' '', tokenType = SPACE\<rparr>, \<lparr>tokenValue = ''b'', tokenType = STRING\<rparr>], \<lparr>currentToken = \<lparr>tokenValue = [CHR 0x00], tokenType = EOF\<rparr>, lexer = \<lparr>position = 6, input = ''### a b'', currentChar = Some (CHR 0x00), lexerToken = \<lparr>tokenValue = [CHR 0x00], tokenType = EOF\<rparr>\<rparr>\<rparr>)"
    by code_simp
  have h_k: "\<forall>t\<in>set [\<lparr>tokenValue = ''a'', tokenType = STRING\<rparr>, \<lparr>tokenValue = '' '', tokenType = SPACE\<rparr>, \<lparr>tokenValue = ''b'', tokenType = STRING\<rparr>]. tokenType t \<in> set [STRING, SPACE]" by simp
  have h_st: "tokenType (currentToken \<lparr>currentToken = \<lparr>tokenValue = [CHR 0x00], tokenType = EOF\<rparr>, lexer = \<lparr>position = 6, input = ''### a b'', currentChar = Some (CHR 0x00), lexerToken = \<lparr>tokenValue = [CHR 0x00], tokenType = EOF\<rparr>\<rparr>\<rparr>) \<notin> set [STRING, SPACE]" by simp
  have h_n: "length [\<lparr>tokenValue = ''a'', tokenType = STRING\<rparr>, \<lparr>tokenValue = '' '', tokenType = SPACE\<rparr>, \<lparr>tokenValue = ''b'', tokenType = STRING\<rparr>] < 4" by simp
  have h_h0: "eat HEADER3 \<lparr>currentToken = \<lparr>tokenValue = ''###'', tokenType = HEADER3\<rparr>, lexer = \<lparr>position = 3, input = ''### a b'', currentChar = Some (CHR '' ''), lexerToken = \<lparr>tokenValue = ''###'', tokenType = HEADER3\<rparr>\<rparr>\<rparr> = Inr \<lparr>currentToken = \<lparr>tokenValue = '' '', tokenType = SPACE\<rparr>, lexer = \<lparr>position = 4, input = ''### a b'', currentChar = Some (CHR ''a''), lexerToken = \<lparr>tokenValue = '' '', tokenType = SPACE\<rparr>\<rparr>\<rparr>" by code_simp
  have h_h1: "eat SPACE \<lparr>currentToken = \<lparr>tokenValue = '' '', tokenType = SPACE\<rparr>, lexer = \<lparr>position = 4, input = ''### a b'', currentChar = Some (CHR ''a''), lexerToken = \<lparr>tokenValue = '' '', tokenType = SPACE\<rparr>\<rparr>\<rparr> = Inr \<lparr>currentToken = \<lparr>tokenValue = ''a'', tokenType = STRING\<rparr>, lexer = \<lparr>position = 5, input = ''### a b'', currentChar = Some (CHR '' ''), lexerToken = \<lparr>tokenValue = ''a'', tokenType = STRING\<rparr>\<rparr>\<rparr>" by code_simp
  have h_s3: "shift 3 \<lparr>currentToken = \<lparr>tokenValue = ''a'', tokenType = STRING\<rparr>, lexer = \<lparr>position = 5, input = ''### a b'', currentChar = Some (CHR '' ''), lexerToken = \<lparr>tokenValue = ''a'', tokenType = STRING\<rparr>\<rparr>\<rparr> = Inr ([\<lparr>tokenValue = ''a'', tokenType = STRING\<rparr>, \<lparr>tokenValue = '' '', tokenType = SPACE\<rparr>, \<lparr>tokenValue = ''b'', tokenType = STRING\<rparr>], \<lparr>currentToken = \<lparr>tokenValue = [CHR 0x00], tokenType = EOF\<rparr>, lexer = \<lparr>position = 6, input = ''### a b'', currentChar = Some (CHR 0x00), lexerToken = \<lparr>tokenValue = [CHR 0x00], tokenType = EOF\<rparr>\<rparr>\<rparr>)" by code_simp
  have h: "headerStmt 4 \<lparr>currentToken = \<lparr>tokenValue = ''###'', tokenType = HEADER3\<rparr>, lexer = \<lparr>position = 3, input = ''### a b'', currentChar = Some (CHR '' ''), lexerToken = \<lparr>tokenValue = ''###'', tokenType = HEADER3\<rparr>\<rparr>\<rparr> = Some (Inr (ASTNode Header3 \<lparr>tokenValue = ''###'', tokenType = HEADER3\<rparr> None [ASTNode StringNode \<lparr>tokenValue = ''a b'', tokenType = STRING\<rparr> None []], \<lparr>currentToken = \<lparr>tokenValue = [CHR 0x00], tokenType = EOF\<rparr>, lexer = \<lparr>position = 6, input = ''### a b'', currentChar = Some (CHR 0x00), lexerToken = \<lparr>tokenValue = [CHR 0x00], tokenType = EOF\<rparr>\<rparr>\<rparr>))"
    using run_collapses_under_allCharsStmt [OF h_sh h_k h_st h_n refl, where Op = "\<lparr>currentToken = \<lparr>tokenValue = ''###'', tokenType = HEADER3\<rparr>, lexer = \<lparr>position = 3, input = ''### a b'', currentChar = Some (CHR '' ''), lexerToken = \<lparr>tokenValue = ''###'', tokenType = HEADER3\<rparr>\<rparr>\<rparr>" and A = "\<lparr>currentToken = \<lparr>tokenValue = '' '', tokenType = SPACE\<rparr>, lexer = \<lparr>position = 4, input = ''### a b'', currentChar = Some (CHR ''a''), lexerToken = \<lparr>tokenValue = '' '', tokenType = SPACE\<rparr>\<rparr>\<rparr>" and nt = "Header3"] h_h0 h_h1
    by (simp_all add: headers_def)
  have l_sh: "shift (length [\<lparr>tokenValue = ''a'', tokenType = STRING\<rparr>, \<lparr>tokenValue = '' '', tokenType = SPACE\<rparr>, \<lparr>tokenValue = ''b'', tokenType = STRING\<rparr>]) \<lparr>currentToken = \<lparr>tokenValue = ''a'', tokenType = STRING\<rparr>, lexer = \<lparr>position = 3, input = ''- a b'', currentChar = Some (CHR '' ''), lexerToken = \<lparr>tokenValue = ''a'', tokenType = STRING\<rparr>\<rparr>\<rparr> = Inr ([\<lparr>tokenValue = ''a'', tokenType = STRING\<rparr>, \<lparr>tokenValue = '' '', tokenType = SPACE\<rparr>, \<lparr>tokenValue = ''b'', tokenType = STRING\<rparr>], \<lparr>currentToken = \<lparr>tokenValue = [CHR 0x00], tokenType = EOF\<rparr>, lexer = \<lparr>position = 4, input = ''- a b'', currentChar = Some (CHR 0x00), lexerToken = \<lparr>tokenValue = [CHR 0x00], tokenType = EOF\<rparr>\<rparr>\<rparr>)"
    by code_simp
  have l_k: "\<forall>t\<in>set [\<lparr>tokenValue = ''a'', tokenType = STRING\<rparr>, \<lparr>tokenValue = '' '', tokenType = SPACE\<rparr>, \<lparr>tokenValue = ''b'', tokenType = STRING\<rparr>]. tokenType t \<in> set [STRING, SPACE]" by simp
  have l_st: "tokenType (currentToken \<lparr>currentToken = \<lparr>tokenValue = [CHR 0x00], tokenType = EOF\<rparr>, lexer = \<lparr>position = 4, input = ''- a b'', currentChar = Some (CHR 0x00), lexerToken = \<lparr>tokenValue = [CHR 0x00], tokenType = EOF\<rparr>\<rparr>\<rparr>) \<notin> set [STRING, SPACE]" by simp
  have l_n: "length [\<lparr>tokenValue = ''a'', tokenType = STRING\<rparr>, \<lparr>tokenValue = '' '', tokenType = SPACE\<rparr>, \<lparr>tokenValue = ''b'', tokenType = STRING\<rparr>] < 4" by simp
  have l_h0: "eat UNORDEREDLI \<lparr>currentToken = \<lparr>tokenValue = ''-'', tokenType = UNORDEREDLI\<rparr>, lexer = \<lparr>position = 1, input = ''- a b'', currentChar = Some (CHR '' ''), lexerToken = \<lparr>tokenValue = ''-'', tokenType = UNORDEREDLI\<rparr>\<rparr>\<rparr> = Inr \<lparr>currentToken = \<lparr>tokenValue = '' '', tokenType = SPACE\<rparr>, lexer = \<lparr>position = 2, input = ''- a b'', currentChar = Some (CHR ''a''), lexerToken = \<lparr>tokenValue = '' '', tokenType = SPACE\<rparr>\<rparr>\<rparr>" by code_simp
  have l_h1: "eat SPACE \<lparr>currentToken = \<lparr>tokenValue = '' '', tokenType = SPACE\<rparr>, lexer = \<lparr>position = 2, input = ''- a b'', currentChar = Some (CHR ''a''), lexerToken = \<lparr>tokenValue = '' '', tokenType = SPACE\<rparr>\<rparr>\<rparr> = Inr \<lparr>currentToken = \<lparr>tokenValue = ''a'', tokenType = STRING\<rparr>, lexer = \<lparr>position = 3, input = ''- a b'', currentChar = Some (CHR '' ''), lexerToken = \<lparr>tokenValue = ''a'', tokenType = STRING\<rparr>\<rparr>\<rparr>" by code_simp
  have l_s3: "shift 3 \<lparr>currentToken = \<lparr>tokenValue = ''a'', tokenType = STRING\<rparr>, lexer = \<lparr>position = 3, input = ''- a b'', currentChar = Some (CHR '' ''), lexerToken = \<lparr>tokenValue = ''a'', tokenType = STRING\<rparr>\<rparr>\<rparr> = Inr ([\<lparr>tokenValue = ''a'', tokenType = STRING\<rparr>, \<lparr>tokenValue = '' '', tokenType = SPACE\<rparr>, \<lparr>tokenValue = ''b'', tokenType = STRING\<rparr>], \<lparr>currentToken = \<lparr>tokenValue = [CHR 0x00], tokenType = EOF\<rparr>, lexer = \<lparr>position = 4, input = ''- a b'', currentChar = Some (CHR 0x00), lexerToken = \<lparr>tokenValue = [CHR 0x00], tokenType = EOF\<rparr>\<rparr>\<rparr>)" by code_simp
  have l: "innerUnorederedLiStmt 4 \<lparr>currentToken = \<lparr>tokenValue = ''-'', tokenType = UNORDEREDLI\<rparr>, lexer = \<lparr>position = 1, input = ''- a b'', currentChar = Some (CHR '' ''), lexerToken = \<lparr>tokenValue = ''-'', tokenType = UNORDEREDLI\<rparr>\<rparr>\<rparr> = Some (Inr (ASTNode UnorderedListItem \<lparr>tokenValue = ''-'', tokenType = UNORDEREDLI\<rparr> None [ASTNode StringNode \<lparr>tokenValue = ''a b'', tokenType = STRING\<rparr> None []], \<lparr>currentToken = \<lparr>tokenValue = [CHR 0x00], tokenType = EOF\<rparr>, lexer = \<lparr>position = 4, input = ''- a b'', currentChar = Some (CHR 0x00), lexerToken = \<lparr>tokenValue = [CHR 0x00], tokenType = EOF\<rparr>\<rparr>\<rparr>))"
    using run_collapses_under_allCharsStmt [OF l_sh l_k l_st l_n refl, where Op = "\<lparr>currentToken = \<lparr>tokenValue = ''-'', tokenType = UNORDEREDLI\<rparr>, lexer = \<lparr>position = 1, input = ''- a b'', currentChar = Some (CHR '' ''), lexerToken = \<lparr>tokenValue = ''-'', tokenType = UNORDEREDLI\<rparr>\<rparr>\<rparr>" and A = "\<lparr>currentToken = \<lparr>tokenValue = '' '', tokenType = SPACE\<rparr>, lexer = \<lparr>position = 2, input = ''- a b'', currentChar = Some (CHR ''a''), lexerToken = \<lparr>tokenValue = '' '', tokenType = SPACE\<rparr>\<rparr>\<rparr>"] l_h0 l_h1
    by (simp_all add: headers_def)
  have t_sh: "shift (length [\<lparr>tokenValue = '' '', tokenType = SPACE\<rparr>, \<lparr>tokenValue = ''World'', tokenType = STRING\<rparr>]) \<lparr>currentToken = \<lparr>tokenValue = '' '', tokenType = SPACE\<rparr>, lexer = \<lparr>position = 6, input = ''Hello World'', currentChar = Some (CHR ''W''), lexerToken = \<lparr>tokenValue = '' '', tokenType = SPACE\<rparr>\<rparr>\<rparr> = Inr ([\<lparr>tokenValue = '' '', tokenType = SPACE\<rparr>, \<lparr>tokenValue = ''World'', tokenType = STRING\<rparr>], \<lparr>currentToken = \<lparr>tokenValue = [CHR 0x00], tokenType = EOF\<rparr>, lexer = \<lparr>position = 10, input = ''Hello World'', currentChar = Some (CHR 0x00), lexerToken = \<lparr>tokenValue = [CHR 0x00], tokenType = EOF\<rparr>\<rparr>\<rparr>)"
    by code_simp
  have t_k: "\<forall>t\<in>set [\<lparr>tokenValue = '' '', tokenType = SPACE\<rparr>, \<lparr>tokenValue = ''World'', tokenType = STRING\<rparr>]. tokenType t \<in> set [STRING, SPACE]" by simp
  have t_st: "tokenType (currentToken \<lparr>currentToken = \<lparr>tokenValue = [CHR 0x00], tokenType = EOF\<rparr>, lexer = \<lparr>position = 10, input = ''Hello World'', currentChar = Some (CHR 0x00), lexerToken = \<lparr>tokenValue = [CHR 0x00], tokenType = EOF\<rparr>\<rparr>\<rparr>) \<notin> set [STRING, SPACE]" by simp
  have t_n: "length [\<lparr>tokenValue = '' '', tokenType = SPACE\<rparr>, \<lparr>tokenValue = ''World'', tokenType = STRING\<rparr>] < 3" by simp
  have t_h0: "eat STRING \<lparr>currentToken = \<lparr>tokenValue = ''Hello'', tokenType = STRING\<rparr>, lexer = \<lparr>position = 5, input = ''Hello World'', currentChar = Some (CHR '' ''), lexerToken = \<lparr>tokenValue = ''Hello'', tokenType = STRING\<rparr>\<rparr>\<rparr> = Inr \<lparr>currentToken = \<lparr>tokenValue = '' '', tokenType = SPACE\<rparr>, lexer = \<lparr>position = 6, input = ''Hello World'', currentChar = Some (CHR ''W''), lexerToken = \<lparr>tokenValue = '' '', tokenType = SPACE\<rparr>\<rparr>\<rparr>" by code_simp
  have t_s3: "shift 2 \<lparr>currentToken = \<lparr>tokenValue = '' '', tokenType = SPACE\<rparr>, lexer = \<lparr>position = 6, input = ''Hello World'', currentChar = Some (CHR ''W''), lexerToken = \<lparr>tokenValue = '' '', tokenType = SPACE\<rparr>\<rparr>\<rparr> = Inr ([\<lparr>tokenValue = '' '', tokenType = SPACE\<rparr>, \<lparr>tokenValue = ''World'', tokenType = STRING\<rparr>], \<lparr>currentToken = \<lparr>tokenValue = [CHR 0x00], tokenType = EOF\<rparr>, lexer = \<lparr>position = 10, input = ''Hello World'', currentChar = Some (CHR 0x00), lexerToken = \<lparr>tokenValue = [CHR 0x00], tokenType = EOF\<rparr>\<rparr>\<rparr>)" by code_simp
  have t: "formatStmt 3 \<lparr>currentToken = \<lparr>tokenValue = '' '', tokenType = SPACE\<rparr>, lexer = \<lparr>position = 6, input = ''Hello World'', currentChar = Some (CHR ''W''), lexerToken = \<lparr>tokenValue = '' '', tokenType = SPACE\<rparr>\<rparr>\<rparr> = Some (Inr (ASTNode StringNode \<lparr>tokenValue = '' World'', tokenType = STRING\<rparr> None [], \<lparr>currentToken = \<lparr>tokenValue = [CHR 0x00], tokenType = EOF\<rparr>, lexer = \<lparr>position = 10, input = ''Hello World'', currentChar = Some (CHR 0x00), lexerToken = \<lparr>tokenValue = [CHR 0x00], tokenType = EOF\<rparr>\<rparr>\<rparr>))"
    "formatStmt 2 \<lparr>currentToken = \<lparr>tokenValue = ''Hello'', tokenType = STRING\<rparr>, lexer = \<lparr>position = 5, input = ''Hello World'', currentChar = Some (CHR '' ''), lexerToken = \<lparr>tokenValue = ''Hello'', tokenType = STRING\<rparr>\<rparr>\<rparr> = Some (Inr (ASTNode StringNode \<lparr>tokenValue = ''Hello'', tokenType = STRING\<rparr> None [], \<lparr>currentToken = \<lparr>tokenValue = '' '', tokenType = SPACE\<rparr>, lexer = \<lparr>position = 6, input = ''Hello World'', currentChar = Some (CHR ''W''), lexerToken = \<lparr>tokenValue = '' '', tokenType = SPACE\<rparr>\<rparr>\<rparr>))"
    using run_collapses_under_allCharsStmt [OF t_sh t_k t_st t_n refl, where Q = "\<lparr>currentToken = \<lparr>tokenValue = ''Hello'', tokenType = STRING\<rparr>, lexer = \<lparr>position = 5, input = ''Hello World'', currentChar = Some (CHR '' ''), lexerToken = \<lparr>tokenValue = ''Hello'', tokenType = STRING\<rparr>\<rparr>\<rparr>" and Q' = "\<lparr>currentToken = \<lparr>tokenValue = '' '', tokenType = SPACE\<rparr>, lexer = \<lparr>position = 6, input = ''Hello World'', currentChar = Some (CHR ''W''), lexerToken = \<lparr>tokenValue = '' '', tokenType = SPACE\<rparr>\<rparr>\<rparr>" and m = 0] t_h0
    by (simp_all add: eval_nat_numeral)
  show ?thesis
    by (intro conjI) (fact b_s3 b i_s3 i m_s3 m c_s3 c h_s3 h l_s3 l t_s3 t)+
qed

text \<open>
  C2 as stated fails at the top level: the three tokens of \<^verbatim>\<open>Hello World\<close> are one run
  of STRING and SPACE tokens, and the document has two Text nodes.
\<close>

theorem hello_world_is_two_text_nodes:
  "parse_document 5 ''Hello World'' =
     Some (Inr (ASTNode RootNode \<lparr>tokenValue = ''Root'', tokenType = UNTYPED\<rparr> None
                  [ASTNode StringNode \<lparr>tokenValue = ''Hello'', tokenType = STRING\<rparr> None [],
                   ASTNode StringNode \<lparr>tokenValue = '' World'', tokenType = STRING\<rparr> None []]))"
  by code_simp

section \<open>Fenced code blocks\<close>

lemma codeStmt_block:
  assumes sh: "shift (length body + 4) P = Inr (fence # lang # nl # body @ [fence'], P')"
    and types: "tokenType fence = CODE" "tokenType lang = STRING" "tokenType nl = NEWLINE"
      "tokenType fence' = CODE"
    and body: "\<forall>t\<in>set body. tokenType t \<in> set [STRING, SPACE]"
    and n: "length body < n"
  shows "codeStmt n P =
           Some (Inr (ASTNode Code fence (Some (tokenValue lang))
                        [ASTNode StringNode
                           \<lparr>tokenValue = concat (map tokenValue body), tokenType = STRING\<rparr>
                           None []], P'))"
proof -
  from sh have "shift (Suc (Suc (Suc (length body + 1)))) P
                  = Inr (fence # lang # nl # body @ [fence'], P')"
    by (simp add: eval_nat_numeral)
  from shift_Cons [OF this] obtain P1 where
    c0: "currentToken P = fence" and e1: "eat (tokenType fence) P = Inr P1"
    and s1: "shift (Suc (Suc (length body + 1))) P1 = Inr (lang # nl # body @ [fence'], P')"
    by blast
  from shift_Cons [OF s1] obtain P2 where
    c1: "currentToken P1 = lang" and e2: "eat (tokenType lang) P1 = Inr P2"
    and s2: "shift (Suc (length body + 1)) P2 = Inr (nl # body @ [fence'], P')"
    by blast
  from shift_Cons [OF s2] obtain P3 where
    c2: "currentToken P2 = nl" and e3: "eat (tokenType nl) P2 = Inr P3"
    and s3: "shift (length body + 1) P3 = Inr (body @ [fence'], P')"
    by blast
  from shift_append [OF s3] obtain P4 where
    s4: "shift (length body) P3 = Inr (body, P4)" and s5: "shift 1 P4 = Inr ([fence'], P')"
    by blast
  from s5 have "shift (Suc 0) P4 = Inr ([fence'], P')" by simp
  from shift_Cons [OF this] have c4: "currentToken P4 = fence'" and e5: "eat (tokenType fence') P4 = Inr P'"
    by auto
  from c4 types(4) have stop: "tokenType (currentToken P4) \<notin> set [STRING, SPACE]" by simp
  have a: "allCharsStmt n P3 =
             Some (Inr (ASTNode StringNode
                          \<lparr>tokenValue = concat (map tokenValue body), tokenType = STRING\<rparr> None [], P4))"
    by (rule allCharsStmt_run [OF s4 body stop n])
  from e1 e2 e3 e5 types c0 c1 a show ?thesis
    by (simp add: codeStmt_def)
qed

lemma codeStmt_no_newline:
  assumes sh: "shift 2 P = Inr ([fence, lang], P2)"
    and types: "tokenType fence = CODE" "tokenType lang = STRING"
    and nl: "tokenType (currentToken P2) \<noteq> NEWLINE"
  shows "codeStmt n P = Some (Inl (SyntaxError (currentToken P2)))"
proof -
  from sh have "shift (Suc (Suc 0)) P = Inr ([fence, lang], P2)"
    by (simp add: eval_nat_numeral)
  from shift_Cons [OF this] obtain P1 where
    e1: "eat (tokenType fence) P = Inr P1"
    and s1: "shift (Suc 0) P1 = Inr ([lang], P2)"
    by blast
  from shift_Cons [OF s1] have e2: "eat (tokenType lang) P1 = Inr P2"
    by auto
  from e1 e2 types eat_mismatch [OF nl] show ?thesis
    by (simp add: codeStmt_def)
qed

lemma codeStmt_Inr:
  assumes "codeStmt n P = Some (Inr (node, P'))"
  shows "\<exists>P1 P2 P3 child P4.
           eat CODE P = Inr P1 \<and> eat STRING P1 = Inr P2 \<and> eat NEWLINE P2 = Inr P3 \<and>
           allCharsStmt n P3 = Some (Inr (child, P4)) \<and> eat CODE P4 = Inr P' \<and>
           node = ASTNode Code (currentToken P) (Some (tokenValue (currentToken P1))) [child]"
  using assms unfolding codeStmt_def
  apply (elim thenR_InrE)
  apply (clarsimp split: prod.splits)
  apply (elim thenR_InrE)
  apply simp
  done

text \<open>
  C5. A fenced code block: when the tokens in front of the parser are a CODE fence, a
  STRING, a NEWLINE, a body of STRING and SPACE tokens and a CODE fence, \<^verbatim>\<open>codeStmt\<close>
  returns a Code node whose \<open>languageName\<close> is the text of that STRING and whose only
  child is a Text node holding the body. Every Code node \<^verbatim>\<open>codeStmt\<close> returns has this
  form: one Text child, and the text of the STRING token after the opening fence as
  \<open>languageName\<close>. When the token after the language tag is not a NEWLINE,
  \<^verbatim>\<open>codeStmt\<close> throws the syntax error for that token.
\<close>

theorem code_block_node:
  "(shift (length body + 4) P = Inr (fence # lang # nl # body @ [fence'], P') \<and>
    tokenType fence = CODE \<and> tokenType lang = STRING \<and> tokenType nl = NEWLINE \<and>
    (\<forall>t\<in>set body. tokenType t \<in> set [STRING, SPACE]) \<and> tokenType fence' = CODE \<and>
    length body < n \<longrightarrow>
    codeStmt n P =
      Some (Inr (ASTNode Code fence (Some (tokenValue lang))
                   [ASTNode StringNode
                      \<lparr>tokenValue = concat (map tokenValue body), tokenType = STRING\<rparr>
                      None []], P'))) \<and>
   (codeStmt n Q = Some (Inr (node, Q')) \<longrightarrow>
    nodeType node = Code \<and>
    (\<exists>Q1 child. eat CODE Q = Inr Q1 \<and> tokenType (currentToken Q1) = STRING \<and>
       languageName node = Some (tokenValue (currentToken Q1)) \<and>
       children node = [child] \<and> nodeType child = StringNode \<and> children child = [])) \<and>
   (shift 2 R = Inr ([fence, lang], R2) \<and> tokenType fence = CODE \<and> tokenType lang = STRING \<and>
    tokenType (currentToken R2) \<noteq> NEWLINE \<longrightarrow>
    codeStmt n R = Some (Inl (SyntaxError (currentToken R2))))"
proof (intro conjI impI)
  assume a: "shift (length body + 4) P = Inr (fence # lang # nl # body @ [fence'], P') \<and>
    tokenType fence = CODE \<and> tokenType lang = STRING \<and> tokenType nl = NEWLINE \<and>
    (\<forall>t\<in>set body. tokenType t \<in> set [STRING, SPACE]) \<and> tokenType fence' = CODE \<and>
    length body < n"
  then have sh: "shift (length body + 4) P = Inr (fence # lang # nl # body @ [fence'], P')"
    and t1: "tokenType fence = CODE" and t2: "tokenType lang = STRING"
    and t3: "tokenType nl = NEWLINE" and t4: "tokenType fence' = CODE"
    and bd: "\<forall>t\<in>set body. tokenType t \<in> set [STRING, SPACE]" and n: "length body < n"
    by simp_all
  show "codeStmt n P =
      Some (Inr (ASTNode Code fence (Some (tokenValue lang))
                   [ASTNode StringNode
                      \<lparr>tokenValue = concat (map tokenValue body), tokenType = STRING\<rparr>
                      None []], P'))"
    by (rule codeStmt_block [OF sh t1 t2 t3 t4 bd n])
next
  assume "codeStmt n Q = Some (Inr (node, Q'))"
  from codeStmt_Inr [OF this] obtain Q1 Q2 Q3 child Q4 where
    e1: "eat CODE Q = Inr Q1" and e2: "eat STRING Q1 = Inr Q2"
    and t: "allCharsStmt n Q3 = Some (Inr (child, Q4))"
    and node: "node = ASTNode Code (currentToken Q) (Some (tokenValue (currentToken Q1))) [child]"
    by blast
  from node show "nodeType node = Code" by simp
  from e1 eat_Inr [OF e2] allCharsStmt_node [OF t] node
  show "\<exists>Q1 child. eat CODE Q = Inr Q1 \<and> tokenType (currentToken Q1) = STRING \<and>
       languageName node = Some (tokenValue (currentToken Q1)) \<and>
       children node = [child] \<and> nodeType child = StringNode \<and> children child = []"
    by simp
next
  assume "shift 2 R = Inr ([fence, lang], R2) \<and> tokenType fence = CODE \<and> tokenType lang = STRING \<and>
    tokenType (currentToken R2) \<noteq> NEWLINE"
  then have sh: "shift 2 R = Inr ([fence, lang], R2)"
    and t1: "tokenType fence = CODE" and t2: "tokenType lang = STRING"
    and t3: "tokenType (currentToken R2) \<noteq> NEWLINE"
    by simp_all
  show "codeStmt n R = Some (Inl (SyntaxError (currentToken R2)))"
    by (rule codeStmt_no_newline [OF sh t1 t2 t3])
qed

theorem code_block_node_witness:
  "shift 7 \<lparr>currentToken = \<lparr>tokenValue = ''```'', tokenType = CODE\<rparr>,
            lexer = \<lparr>position = 3, input = ''```js\<newline>abc def```'', currentChar = Some (CHR ''j''),
                     lexerToken = \<lparr>tokenValue = ''```'', tokenType = CODE\<rparr>\<rparr>\<rparr> =
     Inr ([\<lparr>tokenValue = ''```'', tokenType = CODE\<rparr>,
           \<lparr>tokenValue = ''js'', tokenType = STRING\<rparr>,
           \<lparr>tokenValue = ''\<newline>'', tokenType = NEWLINE\<rparr>,
           \<lparr>tokenValue = ''abc'', tokenType = STRING\<rparr>,
           \<lparr>tokenValue = '' '', tokenType = SPACE\<rparr>,
           \<lparr>tokenValue = ''def'', tokenType = STRING\<rparr>,
           \<lparr>tokenValue = ''```'', tokenType = CODE\<rparr>],
          \<lparr>currentToken = \<lparr>tokenValue = [CHR 0x00], tokenType = EOF\<rparr>,
           lexer = \<lparr>position = 13, input = ''```js\<newline>abc def```'', currentChar = Some (CHR 0x00),
                    lexerToken = \<lparr>tokenValue = [CHR 0x00], tokenType = EOF\<rparr>\<rparr>\<rparr>) \<and>
   codeStmt 4 \<lparr>currentToken = \<lparr>tokenValue = ''```'', tokenType = CODE\<rparr>,
            lexer = \<lparr>position = 3, input = ''```js\<newline>abc def```'', currentChar = Some (CHR ''j''),
                     lexerToken = \<lparr>tokenValue = ''```'', tokenType = CODE\<rparr>\<rparr>\<rparr> =
     Some (Inr (ASTNode Code \<lparr>tokenValue = ''```'', tokenType = CODE\<rparr> (Some ''js'')
                  [ASTNode StringNode \<lparr>tokenValue = ''abc def'', tokenType = STRING\<rparr> None []],
                \<lparr>currentToken = \<lparr>tokenValue = [CHR 0x00], tokenType = EOF\<rparr>,
                 lexer = \<lparr>position = 13, input = ''```js\<newline>abc def```'',
                          currentChar = Some (CHR 0x00),
                          lexerToken = \<lparr>tokenValue = [CHR 0x00], tokenType = EOF\<rparr>\<rparr>\<rparr>)) \<and>
   shift 2 \<lparr>currentToken = \<lparr>tokenValue = ''```'', tokenType = CODE\<rparr>,
            lexer = \<lparr>position = 3, input = ''```js abc```'', currentChar = Some (CHR ''j''),
                     lexerToken = \<lparr>tokenValue = ''```'', tokenType = CODE\<rparr>\<rparr>\<rparr> =
     Inr ([\<lparr>tokenValue = ''```'', tokenType = CODE\<rparr>, \<lparr>tokenValue = ''js'', tokenType = STRING\<rparr>],
          \<lparr>currentToken = \<lparr>tokenValue = '' '', tokenType = SPACE\<rparr>,
           lexer = \<lparr>position = 6, input = ''```js abc```'', currentChar = Some (CHR ''a''),
                    lexerToken = \<lparr>tokenValue = '' '', tokenType = SPACE\<rparr>\<rparr>\<rparr>) \<and>
   codeStmt 4 \<lparr>currentToken = \<lparr>tokenValue = ''```'', tokenType = CODE\<rparr>,
            lexer = \<lparr>position = 3, input = ''```js abc```'', currentChar = Some (CHR ''j''),
                     lexerToken = \<lparr>tokenValue = ''```'', tokenType = CODE\<rparr>\<rparr>\<rparr> =
     Some (Inl (SyntaxError \<lparr>tokenValue = '' '', tokenType = SPACE\<rparr>))"
proof -
  let ?f = "\<lparr>tokenValue = ''```'', tokenType = CODE\<rparr>"
  let ?js = "\<lparr>tokenValue = ''js'', tokenType = STRING\<rparr>"
  let ?nl = "\<lparr>tokenValue = ''\<newline>'', tokenType = NEWLINE\<rparr>"
  let ?body = "[\<lparr>tokenValue = ''abc'', tokenType = STRING\<rparr>,
           \<lparr>tokenValue = '' '', tokenType = SPACE\<rparr>,
           \<lparr>tokenValue = ''def'', tokenType = STRING\<rparr>]"
  let ?P = "\<lparr>currentToken = ?f,
            lexer = \<lparr>position = 3, input = ''```js\<newline>abc def```'', currentChar = Some (CHR ''j''),
                     lexerToken = ?f\<rparr>\<rparr>"
  let ?P' = "\<lparr>currentToken = \<lparr>tokenValue = [CHR 0x00], tokenType = EOF\<rparr>,
           lexer = \<lparr>position = 13, input = ''```js\<newline>abc def```'', currentChar = Some (CHR 0x00),
                    lexerToken = \<lparr>tokenValue = [CHR 0x00], tokenType = EOF\<rparr>\<rparr>\<rparr>"
  let ?R = "\<lparr>currentToken = ?f,
            lexer = \<lparr>position = 3, input = ''```js abc```'', currentChar = Some (CHR ''j''),
                     lexerToken = ?f\<rparr>\<rparr>"
  let ?R2 = "\<lparr>currentToken = \<lparr>tokenValue = '' '', tokenType = SPACE\<rparr>,
           lexer = \<lparr>position = 6, input = ''```js abc```'', currentChar = Some (CHR ''a''),
                    lexerToken = \<lparr>tokenValue = '' '', tokenType = SPACE\<rparr>\<rparr>\<rparr>"
  have s1: "shift 7 ?P = Inr (?f # ?js # ?nl # ?body @ [?f], ?P')" by code_simp
  have s2: "shift 2 ?R = Inr ([?f, ?js], ?R2)" by code_simp
  from code_block_node [where body = ?body and P = ?P and fence = ?f and lang = ?js and nl = ?nl
      and fence' = ?f and P' = ?P' and n = 4 and R = ?R and ?R2.0 = ?R2] s1 s2
  show ?thesis by simp
qed

section \<open>Unterminated bold\<close>




text \<open>
  The lexer on a word: a maximal run of letters and digits at the end of the input is one
  STRING token.
\<close>

lemma isAlphaNumeric_single: "isAlphaNumeric (jsString (Some c)) = (c \<in> set alnumChars)"
  by (simp add: isAlphaNumeric_def)







section \<open>Headers\<close>

lemma headerStmt_no_space:
  assumes "headers (tokenType (currentToken P)) = Some nt"
    and "eat (tokenType (currentToken P)) P = Inr P1"
    and "tokenType (currentToken P1) \<noteq> SPACE"
  shows "headerStmt n P = Some (Inl (SyntaxError (currentToken P1)))"
  using assms by (simp add: headerStmt_def eat_mismatch)

text \<open>
  C8. \<^verbatim>\<open>### Title\<close> parses to a document with one Header3 node whose only child is the
  Text node \<^verbatim>\<open>Title\<close>, within every bound from 3 on. A header token that is not followed
  by a SPACE token makes \<^verbatim>\<open>headerStmt\<close> throw the syntax error for the token found.
\<close>

theorem header3_title:
  "parse_document (3 + k) ''### Title'' =
     Some (Inr (ASTNode RootNode \<lparr>tokenValue = ''Root'', tokenType = UNTYPED\<rparr> None
                  [ASTNode Header3 \<lparr>tokenValue = ''###'', tokenType = HEADER3\<rparr> None
                     [ASTNode StringNode \<lparr>tokenValue = ''Title'', tokenType = STRING\<rparr> None []]])) \<and>
   (headers (tokenType (currentToken P)) = Some nt \<and>
    eat (tokenType (currentToken P)) P = Inr P1 \<and> tokenType (currentToken P1) \<noteq> SPACE \<longrightarrow>
    headerStmt n P = Some (Inl (SyntaxError (currentToken P1))))"
proof
  show "parse_document (3 + k) ''### Title'' =
     Some (Inr (ASTNode RootNode \<lparr>tokenValue = ''Root'', tokenType = UNTYPED\<rparr> None
                  [ASTNode Header3 \<lparr>tokenValue = ''###'', tokenType = HEADER3\<rparr> None
                     [ASTNode StringNode \<lparr>tokenValue = ''Title'', tokenType = STRING\<rparr> None []]]))"
    by (rule parse_document_fuel) code_simp
next
  show "headers (tokenType (currentToken P)) = Some nt \<and>
    eat (tokenType (currentToken P)) P = Inr P1 \<and> tokenType (currentToken P1) \<noteq> SPACE \<longrightarrow>
    headerStmt n P = Some (Inl (SyntaxError (currentToken P1)))"
    by (auto intro: headerStmt_no_space)
qed

theorem header3_title_witness:
  "parse_document 3 ''### Title'' =
     Some (Inr (ASTNode RootNode \<lparr>tokenValue = ''Root'', tokenType = UNTYPED\<rparr> None
                  [ASTNode Header3 \<lparr>tokenValue = ''###'', tokenType = HEADER3\<rparr> None
                     [ASTNode StringNode \<lparr>tokenValue = ''Title'', tokenType = STRING\<rparr> None []]])) \<and>
   Parser_new (Lexer_new ''###Title'') =
     Inr \<lparr>currentToken = \<lparr>tokenValue = ''###'', tokenType = HEADER3\<rparr>,
          lexer = \<lparr>position = 3, input = ''###Title'', currentChar = Some (CHR ''T''),
                   lexerToken = \<lparr>tokenValue = ''###'', tokenType = HEADER3\<rparr>\<rparr>\<rparr> \<and>
   headerStmt 3 \<lparr>currentToken = \<lparr>tokenValue = ''###'', tokenType = HEADER3\<rparr>,
          lexer = \<lparr>position = 3, input = ''###Title'', currentChar = Some (CHR ''T''),
                   lexerToken = \<lparr>tokenValue = ''###'', tokenType = HEADER3\<rparr>\<rparr>\<rparr> =
     Some (Inl (SyntaxError \<lparr>tokenValue = ''Title'', tokenType = STRING\<rparr>))"
proof -
  let ?P = "\<lparr>currentToken = \<lparr>tokenValue = ''###'', tokenType = HEADER3\<rparr>,
          lexer = \<lparr>position = 3, input = ''###Title'', currentChar = Some (CHR ''T''),
                   lexerToken = \<lparr>tokenValue = ''###'', tokenType = HEADER3\<rparr>\<rparr>\<rparr>"
  let ?P1 = "\<lparr>currentToken = \<lparr>tokenValue = ''Title'', tokenType = STRING\<rparr>,
          lexer = \<lparr>position = 7, input = ''###Title'', currentChar = Some (CHR 0x00),
                   lexerToken = \<lparr>tokenValue = ''Title'', tokenType = STRING\<rparr>\<rparr>\<rparr>"
  have new: "Parser_new (Lexer_new ''###Title'') = Inr ?P" by code_simp
  have h1: "headers (tokenType (currentToken ?P)) = Some Header3" by (simp add: headers_def)
  have h2: "eat (tokenType (currentToken ?P)) ?P = Inr ?P1" by code_simp
  from header3_title [where k = 0 and P = ?P and nt = Header3 and ?P1.0 = ?P1 and n = 3] new h1 h2
  show ?thesis by simp
qed

section \<open>What bold and italic nodes contain\<close>

lemma boldStmt_Inr:
  assumes "boldStmt (Suc n) P = Some (Inr (b, P'))"
  shows "\<exists>P1 nodes P2. eat BOLD P = Inr P1 \<and> innerBoldStmt n [] P1 = Some (Inr (nodes, P2)) \<and>
           eat BOLD P2 = Inr P' \<and> b = ASTNode Bold (currentToken P) None nodes"
  using assms unfolding boldStmt.simps
  apply (elim thenR_InrE)
  apply (clarsimp split: prod.splits)
  apply (elim thenR_InrE)
  apply simp
  done

lemma italicStmt_Inr:
  assumes "italicStmt (Suc n) P = Some (Inr (b, P'))"
  shows "\<exists>P1 nodes P2. eat ITALIC P = Inr P1 \<and> innerItalicStmt n [] P1 = Some (Inr (nodes, P2)) \<and>
           eat ITALIC P2 = Inr P' \<and> b = ASTNode Italic (currentToken P) None nodes"
  using assms unfolding italicStmt.simps
  apply (elim thenR_InrE)
  apply (clarsimp split: prod.splits)
  apply (elim thenR_InrE)
  apply simp
  done

lemma innerItalicStmt_Inr:
  assumes "innerItalicStmt (Suc n) nodes P = Some (Inr (ns, P'))"
  shows "(tokenType (currentToken P) = BOLD \<and>
            (\<exists>node P1. boldStmt n P = Some (Inr (node, P1)) \<and>
               innerItalicStmt n (nodes @ [node]) P1 = Some (Inr (ns, P')))) \<or>
         (tokenType (currentToken P) = STRING \<and>
            (\<exists>node P1. allCharsStmt n P = Some (Inr (node, P1)) \<and>
               innerItalicStmt n (nodes @ [node]) P1 = Some (Inr (ns, P')))) \<or>
         (tokenType (currentToken P) \<noteq> BOLD \<and> tokenType (currentToken P) \<noteq> STRING \<and>
            ns = nodes \<and> P' = P)"
proof (cases "tokenType (currentToken P) = BOLD")
  case True
  with assms have "thenR (boldStmt n P) (\<lambda>(node, P1). innerItalicStmt n (nodes @ [node]) P1)
                     = Some (Inr (ns, P'))"
    by (simp add: innerItalicStmt.simps)
  then show ?thesis using True by (elim thenR_InrE) (auto split: prod.splits)
next
  case nb: False
  show ?thesis
  proof (cases "tokenType (currentToken P) = STRING")
    case True
    with assms have "thenR (allCharsStmt n P) (\<lambda>(node, P1). innerItalicStmt n (nodes @ [node]) P1)
                     = Some (Inr (ns, P'))"
      by (simp add: innerItalicStmt.simps)
    then show ?thesis using True by (elim thenR_InrE) (auto split: prod.splits)
  next
    case False
    with nb assms show ?thesis by (simp add: innerItalicStmt.simps)
  qed
qed

lemma innerBoldStmt_Inr:
  assumes "innerBoldStmt (Suc n) nodes P = Some (Inr (ns, P'))"
  shows "(tokenType (currentToken P) = ITALIC \<and>
            (\<exists>node P1. italicStmt n P = Some (Inr (node, P1)) \<and>
               innerBoldStmt n (nodes @ [node]) P1 = Some (Inr (ns, P')))) \<or>
         (tokenType (currentToken P) = STRING \<and>
            (\<exists>node P1. allCharsStmt n P = Some (Inr (node, P1)) \<and>
               innerBoldStmt n (nodes @ [node]) P1 = Some (Inr (ns, P')))) \<or>
         (tokenType (currentToken P) \<noteq> ITALIC \<and> tokenType (currentToken P) \<noteq> STRING \<and>
            ns = nodes \<and> P' = P)"
proof (cases "tokenType (currentToken P) = ITALIC")
  case True
  with assms have "thenR (italicStmt n P) (\<lambda>(node, P1). innerBoldStmt n (nodes @ [node]) P1)
                     = Some (Inr (ns, P'))"
    by (simp add: innerBoldStmt.simps)
  then show ?thesis using True by (elim thenR_InrE) (auto split: prod.splits)
next
  case nb: False
  show ?thesis
  proof (cases "tokenType (currentToken P) = STRING")
    case True
    with assms have "thenR (allCharsStmt n P) (\<lambda>(node, P1). innerBoldStmt n (nodes @ [node]) P1)
                     = Some (Inr (ns, P'))"
      by (simp add: innerBoldStmt.simps)
    then show ?thesis using True by (elim thenR_InrE) (auto split: prod.splits)
  next
    case False
    with nb assms show ?thesis by (simp add: innerBoldStmt.simps)
  qed
qed

lemma emphasis_children:
  "(\<forall>P b P'. boldStmt n P = Some (Inr (b, P')) \<longrightarrow>
      nodeType b = Bold \<and> (\<forall>c\<in>set (children b). nodeType c = StringNode \<or> nodeType c = Italic)) \<and>
   (\<forall>P i P'. italicStmt n P = Some (Inr (i, P')) \<longrightarrow>
      nodeType i = Italic \<and> (\<forall>c\<in>set (children i). nodeType c = StringNode \<or> nodeType c = Bold)) \<and>
   (\<forall>nodes P ns P'. innerItalicStmt n nodes P = Some (Inr (ns, P')) \<longrightarrow>
      (\<forall>c\<in>set nodes. nodeType c = StringNode \<or> nodeType c = Bold) \<longrightarrow>
      (\<forall>c\<in>set ns. nodeType c = StringNode \<or> nodeType c = Bold)) \<and>
   (\<forall>nodes P ns P'. innerBoldStmt n nodes P = Some (Inr (ns, P')) \<longrightarrow>
      (\<forall>c\<in>set nodes. nodeType c = StringNode \<or> nodeType c = Italic) \<longrightarrow>
      (\<forall>c\<in>set ns. nodeType c = StringNode \<or> nodeType c = Italic))"
proof (induction n)
  case 0
  show ?case
    by (simp add: boldStmt.simps italicStmt.simps innerItalicStmt.simps innerBoldStmt.simps)
next
  case (Suc n)
  have b: "nodeType b = Bold" if "boldStmt n P = Some (Inr (b, P'))" for P b P'
    using Suc [THEN conjunct1] that by blast
  have i: "nodeType i = Italic" if "italicStmt n P = Some (Inr (i, P'))" for P i P'
    using Suc [THEN conjunct2, THEN conjunct1] that by blast
  have ii: "\<forall>c\<in>set ns. nodeType c = StringNode \<or> nodeType c = Bold"
    if "innerItalicStmt n nodes P = Some (Inr (ns, P'))"
      and "\<forall>c\<in>set nodes. nodeType c = StringNode \<or> nodeType c = Bold" for nodes P ns P'
    using Suc [THEN conjunct2, THEN conjunct2, THEN conjunct1] that by blast
  have ib: "\<forall>c\<in>set ns. nodeType c = StringNode \<or> nodeType c = Italic"
    if "innerBoldStmt n nodes P = Some (Inr (ns, P'))"
      and "\<forall>c\<in>set nodes. nodeType c = StringNode \<or> nodeType c = Italic" for nodes P ns P'
    using Suc [THEN conjunct2, THEN conjunct2, THEN conjunct2] that by blast
  have 1: "nodeType b = Bold \<and> (\<forall>c\<in>set (children b). nodeType c = StringNode \<or> nodeType c = Italic)"
    if "boldStmt (Suc n) P = Some (Inr (b, P'))" for P b P'
  proof -
    from boldStmt_Inr [OF that] obtain P1 nodes P2 where
      "innerBoldStmt n [] P1 = Some (Inr (nodes, P2))"
      and "b = ASTNode Bold (currentToken P) None nodes"
      by blast
    with ib [of "[]" P1 nodes P2] show ?thesis by simp
  qed
  have 2: "nodeType i = Italic \<and> (\<forall>c\<in>set (children i). nodeType c = StringNode \<or> nodeType c = Bold)"
    if "italicStmt (Suc n) P = Some (Inr (i, P'))" for P i P'
  proof -
    from italicStmt_Inr [OF that] obtain P1 nodes P2 where
      "innerItalicStmt n [] P1 = Some (Inr (nodes, P2))"
      and "i = ASTNode Italic (currentToken P) None nodes"
      by blast
    with ii [of "[]" P1 nodes P2] show ?thesis by simp
  qed
  have 3: "\<forall>c\<in>set ns. nodeType c = StringNode \<or> nodeType c = Bold"
    if r: "innerItalicStmt (Suc n) nodes P = Some (Inr (ns, P'))"
      and ok: "\<forall>c\<in>set nodes. nodeType c = StringNode \<or> nodeType c = Bold" for nodes P ns P'
  proof -
    from innerItalicStmt_Inr [OF r] consider
      (bold) node P1 where "boldStmt n P = Some (Inr (node, P1))"
        "innerItalicStmt n (nodes @ [node]) P1 = Some (Inr (ns, P'))"
      | (chars) node P1 where "allCharsStmt n P = Some (Inr (node, P1))"
        "innerItalicStmt n (nodes @ [node]) P1 = Some (Inr (ns, P'))"
      | (stop) "ns = nodes"
      by blast
    then show ?thesis
    proof cases
      case bold
      from b [OF bold(1)] ok have "\<forall>c\<in>set (nodes @ [node]). nodeType c = StringNode \<or> nodeType c = Bold"
        by simp
      with bold(2) show ?thesis by (rule ii)
    next
      case chars
      from allCharsStmt_node [OF chars(1)] ok
      have "\<forall>c\<in>set (nodes @ [node]). nodeType c = StringNode \<or> nodeType c = Bold"
        by simp
      with chars(2) show ?thesis by (rule ii)
    next
      case stop
      with ok show ?thesis by simp
    qed
  qed
  have 4: "\<forall>c\<in>set ns. nodeType c = StringNode \<or> nodeType c = Italic"
    if r: "innerBoldStmt (Suc n) nodes P = Some (Inr (ns, P'))"
      and ok: "\<forall>c\<in>set nodes. nodeType c = StringNode \<or> nodeType c = Italic" for nodes P ns P'
  proof -
    from innerBoldStmt_Inr [OF r] consider
      (italic) node P1 where "italicStmt n P = Some (Inr (node, P1))"
        "innerBoldStmt n (nodes @ [node]) P1 = Some (Inr (ns, P'))"
      | (chars) node P1 where "allCharsStmt n P = Some (Inr (node, P1))"
        "innerBoldStmt n (nodes @ [node]) P1 = Some (Inr (ns, P'))"
      | (stop) "ns = nodes"
      by blast
    then show ?thesis
    proof cases
      case italic
      from i [OF italic(1)] ok have "\<forall>c\<in>set (nodes @ [node]). nodeType c = StringNode \<or> nodeType c = Italic"
        by simp
      with italic(2) show ?thesis by (rule ib)
    next
      case chars
      from allCharsStmt_node [OF chars(1)] ok
      have "\<forall>c\<in>set (nodes @ [node]). nodeType c = StringNode \<or> nodeType c = Italic"
        by simp
      with chars(2) show ?thesis by (rule ib)
    next
      case stop
      with ok show ?thesis by simp
    qed
  qed
  show ?case
  proof (intro conjI allI impI)
    fix P b P' assume "boldStmt (Suc n) P = Some (Inr (b, P'))"
    from 1 [OF this] show "nodeType b = Bold"
      and "\<forall>c\<in>set (children b). nodeType c = StringNode \<or> nodeType c = Italic"
      by simp_all
  next
    fix P i P' assume "italicStmt (Suc n) P = Some (Inr (i, P'))"
    from 2 [OF this] show "nodeType i = Italic"
      and "\<forall>c\<in>set (children i). nodeType c = StringNode \<or> nodeType c = Bold"
      by simp_all
  next
    fix nodes P ns P'
    assume "innerItalicStmt (Suc n) nodes P = Some (Inr (ns, P'))"
      and "\<forall>c\<in>set nodes. nodeType c = StringNode \<or> nodeType c = Bold"
    then show "\<forall>c\<in>set ns. nodeType c = StringNode \<or> nodeType c = Bold" by (rule 3)
  next
    fix nodes P ns P'
    assume "innerBoldStmt (Suc n) nodes P = Some (Inr (ns, P'))"
      and "\<forall>c\<in>set nodes. nodeType c = StringNode \<or> nodeType c = Italic"
    then show "\<forall>c\<in>set ns. nodeType c = StringNode \<or> nodeType c = Italic" by (rule 4)
  qed
qed

text \<open>
  C7. \<^verbatim>\<open>_**Hello**_\<close> parses to a document with one Italic node, whose only child is
  a Bold node, whose only child is the Text node \<^verbatim>\<open>Hello\<close>, within every bound from 7
  on. Every node \<^verbatim>\<open>boldStmt\<close> returns is a Bold node whose children are Text or Italic
  nodes, and every node \<^verbatim>\<open>italicStmt\<close> returns is an Italic node whose children are Text
  or Bold nodes.
\<close>

theorem italic_bold_hello:
  "parse_document (7 + k) ''_**Hello**_'' =
     Some (Inr (ASTNode RootNode \<lparr>tokenValue = ''Root'', tokenType = UNTYPED\<rparr> None
                  [ASTNode Italic \<lparr>tokenValue = ''_'', tokenType = ITALIC\<rparr> None
                     [ASTNode Bold \<lparr>tokenValue = ''**'', tokenType = BOLD\<rparr> None
                        [ASTNode StringNode \<lparr>tokenValue = ''Hello'', tokenType = STRING\<rparr> None []]]])) \<and>
   (boldStmt n P = Some (Inr (b, P')) \<longrightarrow>
      nodeType b = Bold \<and>
      (\<forall>c\<in>set (children b). nodeType c = StringNode \<or> nodeType c = Italic)) \<and>
   (italicStmt n Q = Some (Inr (i, Q')) \<longrightarrow>
      nodeType i = Italic \<and>
      (\<forall>c\<in>set (children i). nodeType c = StringNode \<or> nodeType c = Bold))"
proof (intro conjI)
  show "parse_document (7 + k) ''_**Hello**_'' =
     Some (Inr (ASTNode RootNode \<lparr>tokenValue = ''Root'', tokenType = UNTYPED\<rparr> None
                  [ASTNode Italic \<lparr>tokenValue = ''_'', tokenType = ITALIC\<rparr> None
                     [ASTNode Bold \<lparr>tokenValue = ''**'', tokenType = BOLD\<rparr> None
                        [ASTNode StringNode \<lparr>tokenValue = ''Hello'', tokenType = STRING\<rparr> None []]]]))"
    by (rule parse_document_fuel) code_simp
next
  show "boldStmt n P = Some (Inr (b, P')) \<longrightarrow>
      nodeType b = Bold \<and>
      (\<forall>c\<in>set (children b). nodeType c = StringNode \<or> nodeType c = Italic)"
    using emphasis_children [of n, THEN conjunct1] by blast
next
  show "italicStmt n Q = Some (Inr (i, Q')) \<longrightarrow>
      nodeType i = Italic \<and>
      (\<forall>c\<in>set (children i). nodeType c = StringNode \<or> nodeType c = Bold)"
    using emphasis_children [of n, THEN conjunct2, THEN conjunct1] by blast
qed

theorem italic_bold_hello_witness:
  "parse_document 7 ''_**Hello**_'' =
     Some (Inr (ASTNode RootNode \<lparr>tokenValue = ''Root'', tokenType = UNTYPED\<rparr> None
                  [ASTNode Italic \<lparr>tokenValue = ''_'', tokenType = ITALIC\<rparr> None
                     [ASTNode Bold \<lparr>tokenValue = ''**'', tokenType = BOLD\<rparr> None
                        [ASTNode StringNode \<lparr>tokenValue = ''Hello'', tokenType = STRING\<rparr> None []]]])) \<and>
   boldStmt 7 \<lparr>currentToken = \<lparr>tokenValue = ''**'', tokenType = BOLD\<rparr>,
          lexer = \<lparr>position = 2, input = ''**a_b_**'', currentChar = Some (CHR ''a''),
                   lexerToken = \<lparr>tokenValue = ''**'', tokenType = BOLD\<rparr>\<rparr>\<rparr> =
     Some (Inr (ASTNode Bold \<lparr>tokenValue = ''**'', tokenType = BOLD\<rparr> None
                  [ASTNode StringNode \<lparr>tokenValue = ''a'', tokenType = STRING\<rparr> None [],
                   ASTNode Italic \<lparr>tokenValue = ''_'', tokenType = ITALIC\<rparr> None
                     [ASTNode StringNode \<lparr>tokenValue = ''b'', tokenType = STRING\<rparr> None []]],
                \<lparr>currentToken = \<lparr>tokenValue = [CHR 0x00], tokenType = EOF\<rparr>,
                 lexer = \<lparr>position = 6, input = ''**a_b_**'', currentChar = Some (CHR 0x00),
                          lexerToken = \<lparr>tokenValue = [CHR 0x00], tokenType = EOF\<rparr>\<rparr>\<rparr>)) \<and>
   italicStmt 7 \<lparr>currentToken = \<lparr>tokenValue = ''_'', tokenType = ITALIC\<rparr>,
          lexer = \<lparr>position = 1, input = ''_a**b**_'', currentChar = Some (CHR ''a''),
                   lexerToken = \<lparr>tokenValue = ''_'', tokenType = ITALIC\<rparr>\<rparr>\<rparr> =
     Some (Inr (ASTNode Italic \<lparr>tokenValue = ''_'', tokenType = ITALIC\<rparr> None
                  [ASTNode StringNode \<lparr>tokenValue = ''a'', tokenType = STRING\<rparr> None [],
                   ASTNode Bold \<lparr>tokenValue = ''**'', tokenType = BOLD\<rparr> None
                     [ASTNode StringNode \<lparr>tokenValue = ''b'', tokenType = STRING\<rparr> None []]],
                \<lparr>currentToken = \<lparr>tokenValue = [CHR 0x00], tokenType = EOF\<rparr>,
                 lexer = \<lparr>position = 7, input = ''_a**b**_'', currentChar = Some (CHR 0x00),
                          lexerToken = \<lparr>tokenValue = [CHR 0x00], tokenType = EOF\<rparr>\<rparr>\<rparr>)) \<and>
   list_all (\<lambda>c. nodeType c = StringNode \<or> nodeType c = Italic)
     (children (ASTNode Bold \<lparr>tokenValue = ''**'', tokenType = BOLD\<rparr> None
                  [ASTNode StringNode \<lparr>tokenValue = ''a'', tokenType = STRING\<rparr> None [],
                   ASTNode Italic \<lparr>tokenValue = ''_'', tokenType = ITALIC\<rparr> None
                     [ASTNode StringNode \<lparr>tokenValue = ''b'', tokenType = STRING\<rparr> None []]])) \<and>
   list_all (\<lambda>c. nodeType c = StringNode \<or> nodeType c = Bold)
     (children (ASTNode Italic \<lparr>tokenValue = ''_'', tokenType = ITALIC\<rparr> None
                  [ASTNode StringNode \<lparr>tokenValue = ''a'', tokenType = STRING\<rparr> None [],
                   ASTNode Bold \<lparr>tokenValue = ''**'', tokenType = BOLD\<rparr> None
                     [ASTNode StringNode \<lparr>tokenValue = ''b'', tokenType = STRING\<rparr> None []]]))"
proof -
  let ?P = "\<lparr>currentToken = \<lparr>tokenValue = ''**'', tokenType = BOLD\<rparr>,
          lexer = \<lparr>position = 2, input = ''**a_b_**'', currentChar = Some (CHR ''a''),
                   lexerToken = \<lparr>tokenValue = ''**'', tokenType = BOLD\<rparr>\<rparr>\<rparr>"
  let ?b = "ASTNode Bold \<lparr>tokenValue = ''**'', tokenType = BOLD\<rparr> None
                  [ASTNode StringNode \<lparr>tokenValue = ''a'', tokenType = STRING\<rparr> None [],
                   ASTNode Italic \<lparr>tokenValue = ''_'', tokenType = ITALIC\<rparr> None
                     [ASTNode StringNode \<lparr>tokenValue = ''b'', tokenType = STRING\<rparr> None []]]"
  let ?P' = "\<lparr>currentToken = \<lparr>tokenValue = [CHR 0x00], tokenType = EOF\<rparr>,
                 lexer = \<lparr>position = 6, input = ''**a_b_**'', currentChar = Some (CHR 0x00),
                          lexerToken = \<lparr>tokenValue = [CHR 0x00], tokenType = EOF\<rparr>\<rparr>\<rparr>"
  let ?Q = "\<lparr>currentToken = \<lparr>tokenValue = ''_'', tokenType = ITALIC\<rparr>,
          lexer = \<lparr>position = 1, input = ''_a**b**_'', currentChar = Some (CHR ''a''),
                   lexerToken = \<lparr>tokenValue = ''_'', tokenType = ITALIC\<rparr>\<rparr>\<rparr>"
  let ?i = "ASTNode Italic \<lparr>tokenValue = ''_'', tokenType = ITALIC\<rparr> None
                  [ASTNode StringNode \<lparr>tokenValue = ''a'', tokenType = STRING\<rparr> None [],
                   ASTNode Bold \<lparr>tokenValue = ''**'', tokenType = BOLD\<rparr> None
                     [ASTNode StringNode \<lparr>tokenValue = ''b'', tokenType = STRING\<rparr> None []]]"
  let ?Q' = "\<lparr>currentToken = \<lparr>tokenValue = [CHR 0x00], tokenType = EOF\<rparr>,
                 lexer = \<lparr>position = 7, input = ''_a**b**_'', currentChar = Some (CHR 0x00),
                          lexerToken = \<lparr>tokenValue = [CHR 0x00], tokenType = EOF\<rparr>\<rparr>\<rparr>"
  have h1: "boldStmt 7 ?P = Some (Inr (?b, ?P'))" by code_simp
  have h2: "italicStmt 7 ?Q = Some (Inr (?i, ?Q'))" by code_simp
  from italic_bold_hello [where k = 0 and n = 7 and P = ?P and b = ?b and P' = ?P'
      and Q = ?Q and i = ?i and Q' = ?Q'] h1 h2
  show ?thesis by simp
qed

section \<open>Unordered lists\<close>

text \<open>
  C1. The input \<^verbatim>\<open>- a\<close>, newline, \<^verbatim>\<open>- b\<close> does not give one list root with two
  items. The loop of \<^verbatim>\<open>unorderedListStmt\<close> runs while the current token is a list
  marker, and after the first item the current token is the NEWLINE: the document has
  three children, a list root with the item \<^verbatim>\<open>a\<close>, a NewLine node and a second list
  root with the item \<^verbatim>\<open>b\<close>.
\<close>

theorem list_with_newline_is_split:
  "parse_document (6 + k) ''- a\<newline>- b'' =
     Some (Inr (ASTNode RootNode \<lparr>tokenValue = ''Root'', tokenType = UNTYPED\<rparr> None
         [ASTNode UnorderedListRoot \<lparr>tokenValue = ''lis'', tokenType = UNTYPED\<rparr> None
            [ASTNode UnorderedListItem \<lparr>tokenValue = ''-'', tokenType = UNORDEREDLI\<rparr> None
               [ASTNode StringNode \<lparr>tokenValue = ''a'', tokenType = STRING\<rparr> None []]],
          ASTNode NewLineNode \<lparr>tokenValue = ''\<newline>'', tokenType = NEWLINE\<rparr> None [],
          ASTNode UnorderedListRoot \<lparr>tokenValue = ''lis'', tokenType = UNTYPED\<rparr> None
            [ASTNode UnorderedListItem \<lparr>tokenValue = ''-'', tokenType = UNORDEREDLI\<rparr> None
               [ASTNode StringNode \<lparr>tokenValue = ''b'', tokenType = STRING\<rparr> None []]]]))"
  by (rule parse_document_fuel) code_simp

text \<open>
  Items that follow each other with no newline between them do share one root.
\<close>

lemma list_without_newline_is_one_root:
  "parse_document (5 + k) ''- a- b'' =
     Some (Inr (ASTNode RootNode \<lparr>tokenValue = ''Root'', tokenType = UNTYPED\<rparr> None
         [ASTNode UnorderedListRoot \<lparr>tokenValue = ''lis'', tokenType = UNTYPED\<rparr> None
            [ASTNode UnorderedListItem \<lparr>tokenValue = ''-'', tokenType = UNORDEREDLI\<rparr> None
               [ASTNode StringNode \<lparr>tokenValue = ''a'', tokenType = STRING\<rparr> None []],
             ASTNode UnorderedListItem \<lparr>tokenValue = ''-'', tokenType = UNORDEREDLI\<rparr> None
               [ASTNode StringNode \<lparr>tokenValue = ''b'', tokenType = STRING\<rparr> None []]]]))"
  by (rule parse_document_fuel) code_simp

end
